theory Spec2Isabelle
  imports Complex_Main "HOL-Library.Product_Lexorder" "HOL-Library.Sublist"
begin

section \<open>Python values used by the planner\<close>

text \<open>
  Text is \<^typ>\<open>string\<close>, holding the UTF-8 bytes of a Python \<^verbatim>\<open>str\<close>: equality,
  emptiness and concatenation are those of the code points. Where the code counts code
  points (\<^verbatim>\<open>len\<close>) the model counts the bytes that start one.
\<close>

definition is_continuation :: "char \<Rightarrow> bool" where
  "is_continuation c = (128 \<le> (of_char c :: nat) \<and> (of_char c :: nat) < 192)"

definition py_len :: "string \<Rightarrow> nat" where
  "py_len s = length (filter (\<lambda>c. \<not> is_continuation c) s)"

text \<open>\<^verbatim>\<open>str(n)\<close> for an integer: its decimal numeral, with a minus sign below zero.\<close>

definition digit_char :: "nat \<Rightarrow> char" where
  "digit_char d = ''0123456789'' ! d"

fun str_nat :: "nat \<Rightarrow> string" where
  "str_nat n = (if n < 10 then [digit_char n] else str_nat (n div 10) @ [digit_char (n mod 10)])"

declare str_nat.simps [simp del]

definition str_int :: "int \<Rightarrow> string" where
  "str_int i = (if i < 0 then ''-'' @ str_nat (nat (- i)) else str_nat (nat i))"

text \<open>The value a decimal numeral denotes, to state that \<^const>\<open>str_nat\<close> writes the number.\<close>

definition digit_val :: "char \<Rightarrow> nat" where
  "digit_val c = of_char c - 48"

definition numeral_val :: "string \<Rightarrow> nat" where
  "numeral_val s = foldl (\<lambda>a c. 10 * a + digit_val c) 0 s"

text \<open>
  Truthiness of an optional string (\<^verbatim>\<open>None\<close> and \<^verbatim>\<open>''\<close> are false), \<^verbatim>\<open>a or b\<close> on
  strings, and \<^verbatim>\<open>d.get(k)\<close>, \<^verbatim>\<open>d.get(k, default)\<close> on a dictionary given by the list of
  its items (the keys of a dictionary are distinct).
\<close>

definition truthy :: "string option \<Rightarrow> bool" where
  "truthy v = (case v of None \<Rightarrow> False | Some s \<Rightarrow> s \<noteq> [])"

definition py_or :: "string option \<Rightarrow> string \<Rightarrow> string" where
  "py_or a b = (case a of None \<Rightarrow> b | Some s \<Rightarrow> if s \<noteq> [] then s else b)"

definition dict_get :: "('k \<times> 'v) list \<Rightarrow> 'k \<Rightarrow> 'v option" where
  "dict_get d k = map_of d k"

definition dict_get_default :: "('k \<times> 'v) list \<Rightarrow> 'k \<Rightarrow> 'v \<Rightarrow> 'v" where
  "dict_get_default d k dflt = (case map_of d k of None \<Rightarrow> dflt | Some v \<Rightarrow> v)"

definition opt_in :: "'a option \<Rightarrow> 'a list \<Rightarrow> bool" where
  "opt_in v xs = (case v of None \<Rightarrow> False | Some x \<Rightarrow> x \<in> set xs)"

text \<open>\<^verbatim>\<open>sep.join(xs)\<close>\<close>

fun py_join :: "string \<Rightarrow> string list \<Rightarrow> string" where
  "py_join sep [] = []"
| "py_join sep [x] = x"
| "py_join sep (x # y # ys) = x @ sep @ py_join sep (y # ys)"

text \<open>
  \<^verbatim>\<open>xs[:n]\<close>: the first \<^verbatim>\<open>n\<close> items, and for a negative \<^verbatim>\<open>n\<close> all but the last
  \<^verbatim>\<open>-n\<close> items.
\<close>

definition py_slice_to :: "int \<Rightarrow> 'a list \<Rightarrow> 'a list" where
  "py_slice_to n xs = (if 0 \<le> n then take (nat n) xs else take (length xs - nat (- n)) xs)"

text \<open>
  A decoded JSON document, for payloads that are passed on as they are. Numbers are the
  values they denote; \<^verbatim>\<open>json_truthy\<close> is Python's truth value of the decoded object.
\<close>

datatype json = JNull | JBool bool | JNum real | JStr string | JArr "json list"
  | JObj "(string \<times> json) list"

fun json_truthy :: "json \<Rightarrow> bool" where
  "json_truthy JNull = False"
| "json_truthy (JBool b) = b"
| "json_truthy (JNum x) = (x \<noteq> 0)"
| "json_truthy (JStr s) = (s \<noteq> [])"
| "json_truthy (JArr xs) = (xs \<noteq> [])"
| "json_truthy (JObj kvs) = (kvs \<noteq> [])"

section \<open>config.py\<close>

definition DEFAULT_SEARCH_RADIUS :: int where
  "DEFAULT_SEARCH_RADIUS = 30000"

definition DEFAULT_MAX_PLACES :: int where
  "DEFAULT_MAX_PLACES = 8"

definition DEFAULT_FORECAST_DAYS :: int where
  "DEFAULT_FORECAST_DAYS = 7"

text \<open>The weather code table. Each label ends with its icon, written as UTF-8 bytes.\<close>

definition WEATHER_CODES_items :: "(int \<times> string) list" where
  "WEATHER_CODES_items = [
(0, ''Clear sky '' @ [CHR 0xE2, CHR 0x98, CHR 0x80, CHR 0xEF, CHR 0xB8, CHR 0x8F]),
    (1, ''Mainly clear '' @ [CHR 0xF0, CHR 0x9F, CHR 0x8C, CHR 0xA4, CHR 0xEF, CHR 0xB8, CHR 0x8F]),
    (2, ''Partly cloudy '' @ [CHR 0xE2, CHR 0x9B, CHR 0x85]),
    (3, ''Overcast '' @ [CHR 0xE2, CHR 0x98, CHR 0x81, CHR 0xEF, CHR 0xB8, CHR 0x8F]),
    (45, ''Foggy '' @ [CHR 0xF0, CHR 0x9F, CHR 0x8C, CHR 0xAB, CHR 0xEF, CHR 0xB8, CHR 0x8F]),
    (48, ''Depositing rime fog '' @ [CHR 0xF0, CHR 0x9F, CHR 0x8C, CHR 0xAB, CHR 0xEF, CHR 0xB8, CHR 0x8F]),
    (51, ''Light drizzle '' @ [CHR 0xF0, CHR 0x9F, CHR 0x8C, CHR 0xA6, CHR 0xEF, CHR 0xB8, CHR 0x8F]),
    (53, ''Moderate drizzle '' @ [CHR 0xF0, CHR 0x9F, CHR 0x8C, CHR 0xA6, CHR 0xEF, CHR 0xB8, CHR 0x8F]),
    (55, ''Dense drizzle '' @ [CHR 0xF0, CHR 0x9F, CHR 0x8C, CHR 0xA7, CHR 0xEF, CHR 0xB8, CHR 0x8F]),
    (56, ''Light freezing drizzle '' @ [CHR 0xF0, CHR 0x9F, CHR 0x8C, CHR 0xA8, CHR 0xEF, CHR 0xB8, CHR 0x8F]),
    (57, ''Dense freezing drizzle '' @ [CHR 0xF0, CHR 0x9F, CHR 0x8C, CHR 0xA8, CHR 0xEF, CHR 0xB8, CHR 0x8F]),
    (61, ''Slight rain '' @ [CHR 0xF0, CHR 0x9F, CHR 0x8C, CHR 0xA7, CHR 0xEF, CHR 0xB8, CHR 0x8F]),
    (63, ''Moderate rain '' @ [CHR 0xF0, CHR 0x9F, CHR 0x8C, CHR 0xA7, CHR 0xEF, CHR 0xB8, CHR 0x8F]),
    (65, ''Heavy rain '' @ [CHR 0xE2, CHR 0x9B, CHR 0x88, CHR 0xEF, CHR 0xB8, CHR 0x8F]),
    (66, ''Light freezing rain '' @ [CHR 0xF0, CHR 0x9F, CHR 0x8C, CHR 0xA8, CHR 0xEF, CHR 0xB8, CHR 0x8F]),
    (67, ''Heavy freezing rain '' @ [CHR 0xF0, CHR 0x9F, CHR 0x8C, CHR 0xA8, CHR 0xEF, CHR 0xB8, CHR 0x8F]),
    (71, ''Slight snow '' @ [CHR 0xF0, CHR 0x9F, CHR 0x8C, CHR 0xA8, CHR 0xEF, CHR 0xB8, CHR 0x8F]),
    (73, ''Moderate snow '' @ [CHR 0xE2, CHR 0x9D, CHR 0x84, CHR 0xEF, CHR 0xB8, CHR 0x8F]),
    (75, ''Heavy snow '' @ [CHR 0xE2, CHR 0x9D, CHR 0x84, CHR 0xEF, CHR 0xB8, CHR 0x8F]),
    (77, ''Snow grains '' @ [CHR 0xF0, CHR 0x9F, CHR 0x8C, CHR 0xA8, CHR 0xEF, CHR 0xB8, CHR 0x8F]),
    (80, ''Slight rain showers '' @ [CHR 0xF0, CHR 0x9F, CHR 0x8C, CHR 0xA6, CHR 0xEF, CHR 0xB8, CHR 0x8F]),
    (81, ''Moderate rain showers '' @ [CHR 0xF0, CHR 0x9F, CHR 0x8C, CHR 0xA7, CHR 0xEF, CHR 0xB8, CHR 0x8F]),
    (82, ''Violent rain showers '' @ [CHR 0xE2, CHR 0x9B, CHR 0x88, CHR 0xEF, CHR 0xB8, CHR 0x8F]),
    (85, ''Slight snow showers '' @ [CHR 0xF0, CHR 0x9F, CHR 0x8C, CHR 0xA8, CHR 0xEF, CHR 0xB8, CHR 0x8F]),
    (86, ''Heavy snow showers '' @ [CHR 0xE2, CHR 0x9D, CHR 0x84, CHR 0xEF, CHR 0xB8, CHR 0x8F]),
    (95, ''Thunderstorm '' @ [CHR 0xE2, CHR 0x9B, CHR 0x88, CHR 0xEF, CHR 0xB8, CHR 0x8F]),
    (96, ''Thunderstorm with slight hail '' @ [CHR 0xE2, CHR 0x9B, CHR 0x88, CHR 0xEF, CHR 0xB8, CHR 0x8F]),
    (99, ''Thunderstorm with heavy hail '' @ [CHR 0xE2, CHR 0x9B, CHR 0x88, CHR 0xEF, CHR 0xB8, CHR 0x8F])
  ]"

definition WEATHER_CODES :: "int \<rightharpoonup> string" where
  "WEATHER_CODES = map_of WEATHER_CODES_items"

section \<open>core\_agents.py\<close>

subsection \<open>Exceptions and responses\<close>

text \<open>
  The exceptions the \<^verbatim>\<open>except\<close> clauses tell apart; \<open>OtherException\<close> stands for
  every other one (\<^verbatim>\<open>KeyError\<close>, \<^verbatim>\<open>ValueError\<close>, \<^verbatim>\<open>AttributeError\<close>, ...). What a
  request to an external service gives is \<^verbatim>\<open>Inr\<close> the decoded body, when the body has the
  shape that the client reads, and otherwise \<^verbatim>\<open>Inl\<close> the exception raised: by the call,
  by \<^verbatim>\<open>raise_for_status\<close>, by the decoding of the body, or by the reading of a body of
  another shape.
\<close>

datatype exn = Timeout | RequestException | JSONDecodeError | TypeError | OtherException

type_synonym 'a response = "exn + 'a"

subsection \<open>GeocodingAgent\<close>

text \<open>
  A candidate of the search endpoint. \<open>c_type\<close> is \<^verbatim>\<open>item.get('type')\<close>; \<open>c_lat\<close> and
  \<open>c_lon\<close> are \<^verbatim>\<open>float(item['lat'])\<close> and \<^verbatim>\<open>float(item['lon'])\<close>, \<open>None\<close> where the
  key is missing or its value is no number; \<open>c_display_name\<close> is
  \<^verbatim>\<open>item['display_name']\<close>, \<open>None\<close> where the key is missing.
\<close>

record candidate =
  c_type :: "string option"
  c_lat :: "real option"
  c_lon :: "real option"
  c_display_name :: "string option"

record geo =
  geo_lat :: real
  geo_lon :: real
  geo_display_name :: string

definition PREFERRED_TYPES :: "string list" where
  "PREFERRED_TYPES = [''city'', ''town'', ''village'', ''municipality'', ''administrative'']"

definition is_preferred :: "candidate \<Rightarrow> bool" where
  "is_preferred item = opt_in (c_type item) PREFERRED_TYPES"

text \<open>
  The dictionary built from a candidate (the same expression at both places of
  \<^verbatim>\<open>get_coordinates\<close>); a missing key or a value that is no number raises.
\<close>

definition geo_result :: "candidate \<Rightarrow> exn + geo" where
  "geo_result item =
     (case c_lat item of
        None \<Rightarrow> Inl OtherException
      | Some la \<Rightarrow>
          (case c_lon item of
             None \<Rightarrow> Inl OtherException
           | Some lo \<Rightarrow>
               (case c_display_name item of
                  None \<Rightarrow> Inl OtherException
                | Some dn \<Rightarrow> Inr \<lparr>geo_lat = la, geo_lon = lo, geo_display_name = dn\<rparr>)))"

text \<open>The \<^verbatim>\<open>for item in data\<close> loop: \<open>None\<close> when it ends without returning.\<close>

fun prefer_loop :: "candidate list \<Rightarrow> (exn + geo) option" where
  "prefer_loop [] = None"
| "prefer_loop (item # rest) =
     (if is_preferred item then Some (geo_result item) else prefer_loop rest)"

text \<open>The body of the \<^verbatim>\<open>try\<close> block of \<^verbatim>\<open>get_coordinates\<close>.\<close>

definition get_coordinates_try :: "candidate list response \<Rightarrow> exn + geo option" where
  "get_coordinates_try resp =
     (case resp of
        Inl e \<Rightarrow> Inl e
      | Inr data \<Rightarrow>
          (case data of
             [] \<Rightarrow> Inr None
           | first # _ \<Rightarrow>
               (case prefer_loop data of
                  Some r \<Rightarrow> map_sum id Some r
                | None \<Rightarrow> map_sum id Some (geo_result first))))"

text \<open>
  The place name only goes into the request, so it may be any value (\<open>'q\<close>); the
  orchestrator passes the decoded value of the intent analysis.
\<close>

definition get_coordinates :: "('q \<Rightarrow> candidate list response) \<Rightarrow> 'q \<Rightarrow> geo option" where
  "get_coordinates nominatim place_name =
     (case get_coordinates_try (nominatim place_name) of
        Inl Timeout \<Rightarrow> None
      | Inl RequestException \<Rightarrow> None
      | Inl _ \<Rightarrow> None
      | Inr result \<Rightarrow> result)"

subsection \<open>WeatherAgent\<close>

text \<open>
  The body of the \<^verbatim>\<open>try\<close> block of \<^verbatim>\<open>get_weather\<close>, which returns the decoded body as
  it is; the body \<^verbatim>\<open>null\<close> is Python's \<^verbatim>\<open>None\<close>.
\<close>

definition get_weather_try :: "json response \<Rightarrow> exn + json option" where
  "get_weather_try resp =
     (case resp of
        Inl e \<Rightarrow> Inl e
      | Inr data \<Rightarrow> Inr (if data = JNull then None else Some data))"

definition get_weather ::
  "(real \<Rightarrow> real \<Rightarrow> int \<Rightarrow> json response) \<Rightarrow> real \<Rightarrow> real \<Rightarrow> int \<Rightarrow> json option" where
  "get_weather open_meteo lat lon forecast_days =
     (case get_weather_try (open_meteo lat lon forecast_days) of
        Inl Timeout \<Rightarrow> None
      | Inl RequestException \<Rightarrow> None
      | Inl _ \<Rightarrow> None
      | Inr result \<Rightarrow> result)"

text \<open>\<^verbatim>\<open>WEATHER_CODES.get(weather_code, f"Unknown ({weather_code})")\<close>\<close>

definition get_weather_description :: "int \<Rightarrow> string" where
  "get_weather_description weather_code =
     (case WEATHER_CODES weather_code of
        Some description \<Rightarrow> description
      | None \<Rightarrow> ''Unknown ('' @ str_int weather_code @ '')'')"

subsection \<open>PlacesAgent\<close>

text \<open>
  An element of the points-of-interest response: \<^verbatim>\<open>element.get('lat')\<close>,
  \<^verbatim>\<open>element.get('lon')\<close>, \<^verbatim>\<open>element.get('center')\<close> (a dictionary of numbers) and
  \<^verbatim>\<open>element.get('tags')\<close> (a dictionary of strings), and the body of the response with
  its optional list of elements.
\<close>

record element =
  e_lat :: "real option"
  e_lon :: "real option"
  e_center :: "(string \<times> real) list option"
  e_tags :: "(string \<times> string) list option"

record osm =
  osm_elements :: "element list option"

record place =
  p_name :: string
  p_type :: string
  p_tags :: "(string \<times> string) list"
  p_address :: string
  p_website :: string
  p_wikipedia :: string
  p_lat :: "real option"
  p_lon :: "real option"

text \<open>
  Truth value of an optional number and of an optional dictionary, as tested by
  \<^verbatim>\<open>if not lat_coord and element.get('center')\<close>.
\<close>

definition num_truthy :: "real option \<Rightarrow> bool" where
  "num_truthy v = (case v of None \<Rightarrow> False | Some x \<Rightarrow> x \<noteq> 0)"

definition dict_truthy :: "('k \<times> 'v) list option \<Rightarrow> bool" where
  "dict_truthy v = (case v of None \<Rightarrow> False | Some d \<Rightarrow> d \<noteq> [])"

text \<open>The coordinates of an element: its own, or those of its centre.\<close>

definition element_coords :: "element \<Rightarrow> real option \<times> real option" where
  "element_coords element =
     (let lat_coord = e_lat element; lon_coord = e_lon element
      in if \<not> num_truthy lat_coord \<and> dict_truthy (e_center element)
         then (case e_center element of
                 Some center \<Rightarrow> (dict_get center ''lat'', dict_get center ''lon'')
               | None \<Rightarrow> (lat_coord, lon_coord))
         else (lat_coord, lon_coord))"

definition place_info :: "element \<Rightarrow> (string \<times> string) list \<Rightarrow> string \<Rightarrow> place" where
  "place_info element tags name =
     \<lparr>p_name = name,
      p_type = py_or (dict_get tags ''tourism'')
                 (py_or (dict_get tags ''historic'')
                    (py_or (dict_get tags ''leisure'')
                       (dict_get_default tags ''amenity'' ''attraction''))),
      p_tags = tags,
      p_address = dict_get_default tags ''addr:street'' [],
      p_website = dict_get_default tags ''website'' [],
      p_wikipedia = dict_get_default tags ''wikipedia'' [],
      p_lat = fst (element_coords element),
      p_lon = snd (element_coords element)\<rparr>"

text \<open>
  The \<^verbatim>\<open>for element in data.get('elements', [])\<close> loop, carrying \<^verbatim>\<open>places\<close> and
  \<^verbatim>\<open>seen_names\<close>.
\<close>

fun collect_places :: "element list \<Rightarrow> place list \<Rightarrow> string set \<Rightarrow> place list" where
  "collect_places [] places seen_names = places"
| "collect_places (element # rest) places seen_names =
     (let tags = (case e_tags element of None \<Rightarrow> [] | Some t \<Rightarrow> t);
          name = dict_get tags ''name''
      in (case name of
            None \<Rightarrow> collect_places rest places seen_names
          | Some n \<Rightarrow>
              (if n \<noteq> [] \<and> n \<notin> seen_names
               then collect_places rest (places @ [place_info element tags n]) (insert n seen_names)
               else collect_places rest places seen_names)))"

text \<open>The key of the ranking; tuples compare lexicographically.\<close>

definition rank :: "place \<Rightarrow> nat \<times> nat \<times> nat \<times> nat \<times> nat" where
  "rank p =
     (let tags = p_tags p
      in (if truthy (dict_get tags ''wikipedia'') \<or> truthy (dict_get tags ''website'') then 0 else 1,
          if opt_in (dict_get tags ''tourism'') [''museum'', ''gallery'', ''attraction'', ''viewpoint'']
          then 0 else 1,
          if truthy (dict_get tags ''historic'') then 0 else 1,
          if opt_in (dict_get tags ''leisure'') [''park'', ''garden''] then 0 else 1,
          py_len (p_name p)))"

text \<open>
  The body of the \<^verbatim>\<open>try\<close> block of \<^verbatim>\<open>get_tourist_places\<close>. The request carries the
  coordinates, the radius and the cap \<^verbatim>\<open>limit * 5\<close>; \<^verbatim>\<open>sorted\<close> is the stable sort.
\<close>

definition get_tourist_places_try :: "osm response \<Rightarrow> int \<Rightarrow> exn + place list" where
  "get_tourist_places_try resp limit =
     (case resp of
        Inl e \<Rightarrow> Inl e
      | Inr data \<Rightarrow>
          (let places = collect_places
                 (case osm_elements data of None \<Rightarrow> [] | Some es \<Rightarrow> es) [] {}
           in Inr (if int (length places) > limit
                   then py_slice_to limit (sort_key rank places)
                   else places)))"

definition get_tourist_places ::
  "(real \<Rightarrow> real \<Rightarrow> int \<Rightarrow> int \<Rightarrow> osm response) \<Rightarrow> real \<Rightarrow> real \<Rightarrow> int \<Rightarrow> int \<Rightarrow> place list" where
  "get_tourist_places overpass lat lon radius limit =
     (case get_tourist_places_try (overpass lat lon radius (limit * 5)) limit of
        Inl Timeout \<Rightarrow> []
      | Inl RequestException \<Rightarrow> []
      | Inl _ \<Rightarrow> []
      | Inr places \<Rightarrow> places)"

subsection \<open>TravelInsightsAgent\<close>

text \<open>
  The chat completions are given per prompt template, as functions of the values that
  fill the template: \<open>Inl\<close> the exception raised, or \<open>Inr\<close> the content of the reply.
  The place name and the number of days only go into the prompt, so they may be any
  values (\<open>'p\<close>, \<open>'d\<close>).
\<close>

text \<open>\<^verbatim>\<open>weather_data.get('current', {}).get('temperature_2m', 'N/A')\<close>\<close>

definition current_temperature :: "json \<Rightarrow> exn + json" where
  "current_temperature weather_data =
     (case weather_data of
        JObj items \<Rightarrow>
          (case dict_get_default items ''current'' (JObj []) of
             JObj current \<Rightarrow> Inr (dict_get_default current ''temperature_2m'' (JStr ''N/A''))
           | _ \<Rightarrow> Inl OtherException)
      | _ \<Rightarrow> Inl OtherException)"

definition get_travel_tips_try ::
  "('p \<Rightarrow> json \<Rightarrow> string \<Rightarrow> string response) \<Rightarrow> 'p \<Rightarrow> json \<Rightarrow> place list \<Rightarrow> exn + string" where
  "get_travel_tips_try groq_tips place_name weather_data places =
     (case current_temperature weather_data of
        Inl e \<Rightarrow> Inl e
      | Inr current_temp \<Rightarrow>
          (let places_list = (if places \<noteq> [] then py_join '', '' (map p_name (take 3 places))
                              else ''various attractions'')
           in groq_tips place_name current_temp places_list))"

definition get_travel_tips ::
  "('p \<Rightarrow> json \<Rightarrow> string \<Rightarrow> string response) \<Rightarrow> 'p \<Rightarrow> json \<Rightarrow> place list \<Rightarrow> string" where
  "get_travel_tips groq_tips place_name weather_data places =
     (case get_travel_tips_try groq_tips place_name weather_data places of
        Inl _ \<Rightarrow> ''Unable to generate travel tips at this time.''
      | Inr result \<Rightarrow> result)"

definition get_itinerary_try ::
  "('d \<Rightarrow> 'p \<Rightarrow> string \<Rightarrow> string response) \<Rightarrow> 'p \<Rightarrow> place list \<Rightarrow> 'd \<Rightarrow> exn + string" where
  "get_itinerary_try groq_itinerary place_name places days =
     (let places_list =
            py_join ''\<newline>'' (map (\<lambda>p. ''- '' @ p_name p @ '' ('' @ p_type p @ '')'') places)
      in groq_itinerary days place_name places_list)"

definition get_itinerary ::
  "('d \<Rightarrow> 'p \<Rightarrow> string \<Rightarrow> string response) \<Rightarrow> 'p \<Rightarrow> place list \<Rightarrow> 'd \<Rightarrow> string" where
  "get_itinerary groq_itinerary place_name places days =
     (case get_itinerary_try groq_itinerary place_name places days of
        Inl _ \<Rightarrow> ''Unable to generate itinerary at this time.''
      | Inr result \<Rightarrow> result)"

section \<open>orchestrator.py\<close>

subsection \<open>Operations on text and on decoded values\<close>

text \<open>
  \<^verbatim>\<open>w[0]\<close>, the first code point of a text that is not empty: its first byte and the
  continuation bytes that follow it.
\<close>

definition first_char :: "string \<Rightarrow> string" where
  "first_char w = (case w of [] \<Rightarrow> [] | c # cs \<Rightarrow> c # takeWhile is_continuation cs)"

text \<open>
  \<^verbatim>\<open>s.strip(chars)\<close> for ASCII characters \<open>chars\<close>: a byte below 128 is a code point of
  its own, so stripping bytes strips code points.
\<close>

definition strip_where :: "(char \<Rightarrow> bool) \<Rightarrow> string \<Rightarrow> string" where
  "strip_where P s = rev (dropWhile P (rev (dropWhile P s)))"

definition py_strip_chars :: "string \<Rightarrow> string \<Rightarrow> string" where
  "py_strip_chars chars s = strip_where (\<lambda>c. c \<in> set chars) s"

text \<open>
  \<^verbatim>\<open>s in v\<close> for a text \<open>s\<close> and a decoded value \<open>v\<close>: membership in a list, containment
  in a text, being a key of a dictionary; \<^verbatim>\<open>None\<close>, a number and a truth value are not
  iterable, and the test raises \<^verbatim>\<open>TypeError\<close>.
\<close>

fun is_substring :: "string \<Rightarrow> string \<Rightarrow> bool" where
  "is_substring s [] = (s = [])"
| "is_substring s (c # cs) = (prefix s (c # cs) \<or> is_substring s cs)"

fun py_contains :: "json \<Rightarrow> string \<Rightarrow> exn + bool" where
  "py_contains (JArr xs) s = Inr (JStr s \<in> set xs)"
| "py_contains (JStr t) s = Inr (is_substring s t)"
| "py_contains (JObj kvs) s = Inr (s \<in> fst ` set kvs)"
| "py_contains JNull s = Inl TypeError"
| "py_contains (JBool b) s = Inl TypeError"
| "py_contains (JNum x) s = Inl TypeError"

text \<open>\<^verbatim>\<open>d[k] = v\<close> on a dictionary given by the list of its items.\<close>

fun dict_set :: "('k \<times> 'v) list \<Rightarrow> 'k \<Rightarrow> 'v \<Rightarrow> ('k \<times> 'v) list" where
  "dict_set [] k v = [(k, v)]"
| "dict_set ((k', v') # d) k v = (if k' = k then (k, v) # d else (k', v') # dict_set d k v)"

subsection \<open>What the orchestrator runs against\<close>

text \<open>
  The structured object of the intent analysis is a decoded JSON object, the list of its
  items (Python's \<^verbatim>\<open>None\<close> is \<open>JNull\<close>). The result bundle has its keys as fields, an
  absent key being \<open>None\<close>.
\<close>

type_synonym query_analysis = "(string \<times> json) list"

record data =
  d_weather :: "json option"
  d_places :: "place list option"
  d_tips :: "string option"
  d_itinerary :: "string option"

record result_bundle =
  b_success :: bool
  b_is_greeting :: "bool option"
  b_message :: "string option"
  b_place :: "json option"
  b_display_name :: "string option"
  b_coordinates :: "(real \<times> real) option"
  b_intents :: "json option"
  b_data :: "data option"
  b_summary :: "string option"

text \<open>
  The environment. Of the standard library: \<open>str_lower\<close>, \<open>str_strip\<close>, \<open>str_split\<close> and
  \<open>str_isupper\<close> are \<^verbatim>\<open>str.lower\<close>, \<^verbatim>\<open>str.strip\<close>, \<^verbatim>\<open>str.split\<close> (both without
  argument) and \<^verbatim>\<open>str.isupper\<close>, which follow the Unicode character database;
  \<open>str_of v\<close> is \<^verbatim>\<open>str(v)\<close> for a decoded value that is no text; \<open>re_search pattern s\<close>
  is group 1 of \<^verbatim>\<open>re.search(pattern, s, re.IGNORECASE)\<close>, \<open>None\<close> when there is no match.
  Then the three HTTP services and the chat completions, one per prompt template:
  \<open>groq_intent\<close> gives the reply to the intent prompt with its code fence removed and
  decoded by \<^verbatim>\<open>json.loads\<close>, when that is a JSON object, and the exception raised
  otherwise; \<open>groq_summary\<close> gives the stripped reply to the summary prompt that
  \<^verbatim>\<open>_generate_summary\<close> builds from its arguments.
\<close>

record env =
  str_lower :: "string \<Rightarrow> string"
  str_strip :: "string \<Rightarrow> string"
  str_split :: "string \<Rightarrow> string list"
  str_isupper :: "string \<Rightarrow> bool"
  str_of :: "json \<Rightarrow> string"
  re_search :: "string \<Rightarrow> string \<Rightarrow> string option"
  nominatim :: "json \<Rightarrow> candidate list response"
  open_meteo :: "real \<Rightarrow> real \<Rightarrow> int \<Rightarrow> json response"
  overpass :: "real \<Rightarrow> real \<Rightarrow> int \<Rightarrow> int \<Rightarrow> osm response"
  groq_intent :: "string \<Rightarrow> query_analysis response"
  groq_spelling :: "json \<Rightarrow> string response"
  groq_tips :: "json \<Rightarrow> json \<Rightarrow> string \<Rightarrow> string response"
  groq_itinerary :: "json \<Rightarrow> json \<Rightarrow> string \<Rightarrow> string response"
  groq_summary :: "string \<Rightarrow> json \<Rightarrow> result_bundle \<Rightarrow> json \<Rightarrow> string response"

text \<open>A decoded value inside an f-string: a text as it is, any other value by \<^verbatim>\<open>str\<close>.\<close>

definition format_value :: "env \<Rightarrow> json \<Rightarrow> string" where
  "format_value env v = (case v of JStr s \<Rightarrow> s | _ \<Rightarrow> str_of env v)"

text \<open>The calls that \<^verbatim>\<open>process_query\<close> makes, in order.\<close>

datatype call =
    Call_understand_query string
  | Call_get_coordinates json
  | Call_get_spelling_suggestions json
  | Call_get_weather real real
  | Call_get_tourist_places real real int int
  | Call_get_travel_tips json
  | Call_get_itinerary json json
  | Call_generate_summary string

subsection \<open>\_get\_spelling\_suggestions\<close>

text \<open>
  The stripped content of the reply, or the place name itself when the call raises.
\<close>

definition get_spelling_suggestions :: "env \<Rightarrow> json \<Rightarrow> json" where
  "get_spelling_suggestions env place_name =
     (case groq_spelling env place_name of
        Inl _ \<Rightarrow> place_name
      | Inr content \<Rightarrow>
          JStr (py_strip_chars [CHR 0x27] (py_strip_chars [CHR 0x22] (str_strip env content))))"

subsection \<open>extract\_place\_name\<close>

definition patterns :: "string list" where
  "patterns = [
     ''(?:going to|visit|plan.*trip to|travel to|in)'' @ [CHR 0x5C] @ ''s+([A-Z][a-zA-Z''
       @ [CHR 0x5C] @ ''s]+?)(?:'' @ [CHR 0x5C] @ ''s*[,'' @ [CHR 0x5C] @ ''.]|$|'' @ [CHR 0x5C]
       @ ''s+(?:let|what|and|for))'',
     ''weather in'' @ [CHR 0x5C] @ ''s+([A-Z][a-zA-Z'' @ [CHR 0x5C] @ ''s]+?)(?:''
       @ [CHR 0x5C] @ ''s*[,'' @ [CHR 0x5C] @ ''.'' @ [CHR 0x5C] @ ''?]|$)'',
     ''places (?:in|to visit in)'' @ [CHR 0x5C] @ ''s+([A-Z][a-zA-Z'' @ [CHR 0x5C]
       @ ''s]+?)(?:'' @ [CHR 0x5C] @ ''s*[,'' @ [CHR 0x5C] @ ''.'' @ [CHR 0x5C] @ ''?]|$)'',
     ''^([A-Z][a-zA-Z'' @ [CHR 0x5C] @ ''s]+?)(?:'' @ [CHR 0x5C]
       @ ''s+weather|places|trip|itinerary)'']"

text \<open>The loop over the patterns: \<open>None\<close> when no pattern matches.\<close>

fun match_patterns :: "env \<Rightarrow> string list \<Rightarrow> string \<Rightarrow> string option" where
  "match_patterns env [] user_input = None"
| "match_patterns env (pattern # rest) user_input =
     (case re_search env pattern user_input of
        Some group1 \<Rightarrow> Some (str_strip env group1)
      | None \<Rightarrow> match_patterns env rest user_input)"

definition STOP_WORDS :: "string list" where
  "STOP_WORDS = [''i'', ''i'm'', ''going'', ''to'', ''what'', ''let'', ''plan'', ''my'', ''trip'', ''the'']"

definition capitalized_words :: "env \<Rightarrow> string \<Rightarrow> string list" where
  "capitalized_words env user_input =
     filter (\<lambda>w. w \<noteq> [] \<and> str_isupper env (first_char w) \<and> str_lower env w \<notin> set STOP_WORDS)
       (str_split env user_input)"

definition extract_place_name :: "env \<Rightarrow> string \<Rightarrow> string" where
  "extract_place_name env user_input =
     (case match_patterns env patterns user_input of
        Some place \<Rightarrow> place
      | None \<Rightarrow>
          (if capitalized_words env user_input \<noteq> []
           then py_join '' '' (capitalized_words env user_input)
           else user_input))"

subsection \<open>understand\_query\<close>

text \<open>
  \<^verbatim>\<open>if result.get('place') in [None, 'null', 'None', '']: result['place'] = None\<close>
\<close>

definition normalise_place :: "query_analysis \<Rightarrow> query_analysis" where
  "normalise_place result =
     (if dict_get_default result ''place'' JNull \<in> {JNull, JStr ''null'', JStr ''None'', JStr []}
      then dict_set result ''place'' JNull else result)"

definition GREETING_WORDS :: "string list" where
  "GREETING_WORDS = [''hi'', ''hello'', ''hey'', ''thanks'', ''thank you'', ''bye'', ''goodbye'']"

text \<open>The fallback of both \<^verbatim>\<open>except\<close> clauses of \<^verbatim>\<open>understand_query\<close>.\<close>

definition fallback_analysis :: "env \<Rightarrow> string \<Rightarrow> query_analysis" where
  "fallback_analysis env user_input =
     (let place = extract_place_name env user_input;
          is_greeting = (str_strip env (str_lower env user_input) \<in> set GREETING_WORDS)
      in [(''place'', if \<not> is_greeting then JStr place else JNull),
          (''intents'', if is_greeting then JArr [JStr ''greeting'']
                        else JArr [JStr ''weather'', JStr ''places'']),
          (''days'', JNum 1),
          (''is_valid_query'', JBool (\<not> is_greeting \<and> place \<noteq> []))])"

definition understand_query :: "env \<Rightarrow> string \<Rightarrow> query_analysis" where
  "understand_query env user_input =
     (case groq_intent env user_input of
        Inr result \<Rightarrow> normalise_place result
      | Inl JSONDecodeError \<Rightarrow> fallback_analysis env user_input
      | Inl _ \<Rightarrow> fallback_analysis env user_input)"

subsection \<open>\_generate\_summary\<close>

definition generate_summary :: "env \<Rightarrow> string \<Rightarrow> json \<Rightarrow> result_bundle \<Rightarrow> json \<Rightarrow> string" where
  "generate_summary env query place result intents =
     (case groq_summary env query place result intents of
        Inl _ \<Rightarrow>
          ''I found comprehensive information about ''
          @ format_value env place @
          '' including current weather conditions, locations to explore, and travel ''
            @ ''recommendations. Check the detailed tabs below for complete information!''
      | Inr summary \<Rightarrow> summary)"

subsection \<open>process\_query\<close>

definition HELP_MESSAGE :: string where
  "HELP_MESSAGE =
     [CHR 0xC3, CHR 0xB0, CHR 0xC5, CHR 0xB8, CHR 0xE2, CHR 0x80, CHR 0x98, CHR 0xE2, CHR 0x80, CHR 0xB9]
     @ '' Hello! I'm your AI travel assistant. Please tell me which city or place you'd ''
     @ ''like to visit, and I can help you with:\<newline>\<newline>''
     @ [CHR 0xC3, CHR 0xA2, CHR 0xE2, CHR 0x82, CHR 0xAC, CHR 0xC2, CHR 0xA2]
     @ '' Current weather and 7-day forecasts\<newline>''
     @ [CHR 0xC3, CHR 0xA2, CHR 0xE2, CHR 0x82, CHR 0xAC, CHR 0xC2, CHR 0xA2]
     @ '' Top tourist attractions\<newline>''
     @ [CHR 0xC3, CHR 0xA2, CHR 0xE2, CHR 0x82, CHR 0xAC, CHR 0xC2, CHR 0xA2]
     @ '' Personalized itineraries\<newline>''
     @ [CHR 0xC3, CHR 0xA2, CHR 0xE2, CHR 0x82, CHR 0xAC, CHR 0xC2, CHR 0xA2]
     @ '' Travel tips and recommendations\<newline>\<newline>For example, try:\<newline>- ''
     @ '''I'm going to Paris'\<newline>- 'What's the weather in Tokyo?'\<newline>- 'Plan a ''
     @ ''3-day trip to Rome'' @ [CHR 0x27]"

definition greeting_bundle :: result_bundle where
  "greeting_bundle =
     \<lparr>b_success = False, b_is_greeting = Some True, b_message = Some HELP_MESSAGE,
      b_place = None, b_display_name = None, b_coordinates = None, b_intents = None,
      b_data = None, b_summary = None\<rparr>"

text \<open>
  The message of the place that was not found;
  \<^verbatim>\<open>if suggestion and suggestion != place_name\<close> decides how it goes on.
\<close>

definition error_msg :: "env \<Rightarrow> json \<Rightarrow> json \<Rightarrow> string" where
  "error_msg env place_name suggestion =
     ''I couldn't find a place called '' @ [CHR 0x27] @ format_value env place_name
     @ [CHR 0x27] @ ''.'' @
     (if json_truthy suggestion \<and> suggestion \<noteq> place_name
      then ''\<newline>\<newline>''
           @ [CHR 0xC3, CHR 0xB0, CHR 0xC5, CHR 0xB8, CHR 0xE2, CHR 0x80, CHR 0x99, CHR 0xC2, CHR 0xA1]
           @ '' Did you mean **''
           @ format_value env suggestion @ ''**? Try searching for that instead!''
      else ''\<newline>\<newline>Please check the spelling or try a different ''
           @ ''location.\<newline>\<newline>Tip: Try using well-known city names like ''
           @ '''London', 'New York', or 'Tokyo'.'')"

definition not_found_bundle :: "env \<Rightarrow> json \<Rightarrow> json \<Rightarrow> result_bundle" where
  "not_found_bundle env place_name suggestion =
     \<lparr>b_success = False, b_is_greeting = Some False,
      b_message = Some (error_msg env place_name suggestion),
      b_place = None, b_display_name = None, b_coordinates = None, b_intents = None,
      b_data = None, b_summary = None\<rparr>"

text \<open>
  \<^verbatim>\<open>'weather' in intents\<close> where the test cannot raise: the same test on the same value
  has passed in the first \<^verbatim>\<open>if\<close> of \<^verbatim>\<open>process_query\<close>, or the function has raised
  there.
\<close>

definition has_intent :: "json \<Rightarrow> string \<Rightarrow> bool" where
  "has_intent intents s = (case py_contains intents s of Inl _ \<Rightarrow> False | Inr b \<Rightarrow> b)"

text \<open>
  The four \<^verbatim>\<open>if\<close> blocks that fill \<^verbatim>\<open>result['data']\<close>, each taking the data mapping
  and the calls made so far and returning them updated.
\<close>

record stage =
  s_data :: data
  s_log :: "call list"

definition weather_truthy :: "json option \<Rightarrow> bool" where
  "weather_truthy v = (case v of None \<Rightarrow> False | Some w \<Rightarrow> json_truthy w)"

definition places_truthy :: "place list option \<Rightarrow> bool" where
  "places_truthy v = (case v of None \<Rightarrow> False | Some ps \<Rightarrow> ps \<noteq> [])"

definition fetch_weather :: "env \<Rightarrow> geo \<Rightarrow> json \<Rightarrow> stage \<Rightarrow> stage" where
  "fetch_weather env geo_data intents st =
     (if has_intent intents ''weather'' \<or> has_intent intents ''general''
      then (let weather_data = get_weather (open_meteo env) (geo_lat geo_data) (geo_lon geo_data)
                                 DEFAULT_FORECAST_DAYS;
                lg = s_log st @ [Call_get_weather (geo_lat geo_data) (geo_lon geo_data)]
            in if weather_truthy weather_data
               then \<lparr>s_data = (s_data st)\<lparr>d_weather := weather_data\<rparr>, s_log = lg\<rparr>
               else \<lparr>s_data = s_data st, s_log = lg\<rparr>)
      else st)"

definition fetch_places :: "env \<Rightarrow> geo \<Rightarrow> json \<Rightarrow> int \<Rightarrow> int \<Rightarrow> stage \<Rightarrow> stage" where
  "fetch_places env geo_data intents search_radius max_places st =
     (if has_intent intents ''places'' \<or> has_intent intents ''general''
         \<or> has_intent intents ''itinerary''
      then (let places_data = get_tourist_places (overpass env) (geo_lat geo_data) (geo_lon geo_data)
                                search_radius max_places;
                lg = s_log st @ [Call_get_tourist_places (geo_lat geo_data) (geo_lon geo_data)
                                   search_radius max_places]
            in if places_data \<noteq> []
               then \<lparr>s_data = (s_data st)\<lparr>d_places := Some places_data\<rparr>, s_log = lg\<rparr>
               else \<lparr>s_data = s_data st, s_log = lg\<rparr>)
      else st)"

definition make_tips :: "env \<Rightarrow> json \<Rightarrow> json \<Rightarrow> stage \<Rightarrow> stage" where
  "make_tips env place_name intents st =
     (if has_intent intents ''tips'' \<and> weather_truthy (d_weather (s_data st))
           \<and> places_truthy (d_places (s_data st))
      then (case (d_weather (s_data st), d_places (s_data st)) of
              (Some weather_data, Some places_data) \<Rightarrow>
                \<lparr>s_data = (s_data st)\<lparr>d_tips :=
                    Some (get_travel_tips (groq_tips env) place_name weather_data places_data)\<rparr>,
                 s_log = s_log st @ [Call_get_travel_tips place_name]\<rparr>
            | _ \<Rightarrow> st)
      else st)"

definition make_itinerary :: "env \<Rightarrow> json \<Rightarrow> json \<Rightarrow> json \<Rightarrow> stage \<Rightarrow> stage" where
  "make_itinerary env place_name intents days st =
     (if has_intent intents ''itinerary'' \<and> places_truthy (d_places (s_data st))
      then (case d_places (s_data st) of
              Some places_data \<Rightarrow>
                \<lparr>s_data = (s_data st)\<lparr>d_itinerary :=
                    Some (get_itinerary (groq_itinerary env) place_name places_data days)\<rparr>,
                 s_log = s_log st @ [Call_get_itinerary place_name days]\<rparr>
            | None \<Rightarrow> st)
      else st)"

definition empty_data :: data where
  "empty_data = \<lparr>d_weather = None, d_places = None, d_tips = None, d_itinerary = None\<rparr>"

definition aggregate ::
  "env \<Rightarrow> json \<Rightarrow> geo \<Rightarrow> json \<Rightarrow> json \<Rightarrow> int \<Rightarrow> int \<Rightarrow> stage \<Rightarrow> stage" where
  "aggregate env place_name geo_data intents days search_radius max_places st =
     make_itinerary env place_name intents days
       (make_tips env place_name intents
          (fetch_places env geo_data intents search_radius max_places
             (fetch_weather env geo_data intents st)))"

text \<open>
  \<^verbatim>\<open>query_analysis.get('place')\<close>,
  \<^verbatim>\<open>query_analysis.get('intents', ['weather', 'places'])\<close>,
  \<^verbatim>\<open>query_analysis.get('days', 1)\<close> and \<^verbatim>\<open>query_analysis.get('is_valid_query', True)\<close>:
  the default stands for a missing key only, a key with the value \<^verbatim>\<open>null\<close> gives \<open>JNull\<close>.
\<close>

definition place_of :: "query_analysis \<Rightarrow> json" where
  "place_of query_analysis = dict_get_default query_analysis ''place'' JNull"

definition intents_of :: "query_analysis \<Rightarrow> json" where
  "intents_of query_analysis =
     dict_get_default query_analysis ''intents'' (JArr [JStr ''weather'', JStr ''places''])"

definition days_of :: "query_analysis \<Rightarrow> json" where
  "days_of query_analysis = dict_get_default query_analysis ''days'' (JNum 1)"

definition is_valid_of :: "query_analysis \<Rightarrow> json" where
  "is_valid_of query_analysis = dict_get_default query_analysis ''is_valid_query'' (JBool True)"

text \<open>
  \<^verbatim>\<open>process_query\<close> returns its result bundle, or raises the exception of the test
  \<^verbatim>\<open>'greeting' in intents\<close>; beside it the model gives the calls made.
\<close>

definition process_query ::
  "env \<Rightarrow> string \<Rightarrow> int \<Rightarrow> int \<Rightarrow> (exn + result_bundle) \<times> call list" where
  "process_query env user_input search_radius max_places =
     (let query_analysis = understand_query env user_input;
          log0 = [Call_understand_query user_input];
          place_name = place_of query_analysis;
          intents = intents_of query_analysis;
          days = days_of query_analysis;
          is_valid = is_valid_of query_analysis
      in (case py_contains intents ''greeting'' of
            Inl e \<Rightarrow> (Inl e, log0)
          | Inr greeting \<Rightarrow>
              (if greeting \<or> \<not> json_truthy place_name \<or> \<not> json_truthy is_valid
               then (Inr greeting_bundle, log0)
               else
                 (case get_coordinates (nominatim env) place_name of
                    None \<Rightarrow>
                      (Inr (not_found_bundle env place_name
                              (get_spelling_suggestions env place_name)),
                       log0 @ [Call_get_coordinates place_name,
                               Call_get_spelling_suggestions place_name])
                  | Some geo_data \<Rightarrow>
                      (let st = aggregate env place_name geo_data intents days search_radius
                                  max_places
                                  \<lparr>s_data = empty_data,
                                   s_log = log0 @ [Call_get_coordinates place_name]\<rparr>;
                           result = \<lparr>b_success = True, b_is_greeting = None, b_message = None,
                                     b_place = Some place_name,
                                     b_display_name = Some (geo_display_name geo_data),
                                     b_coordinates = Some (geo_lat geo_data, geo_lon geo_data),
                                     b_intents = Some intents,
                                     b_data = Some (s_data st), b_summary = None\<rparr>;
                           summary = generate_summary env user_input place_name result intents
                       in (Inr (result\<lparr>b_summary := Some summary\<rparr>),
                           s_log st @ [Call_generate_summary user_input]))))))"

section \<open>Notions of the specification\<close>

text \<open>
  The names of the named elements of a response, in order: the number of deduplicated
  named elements is the length of this list without its duplicates.
\<close>

definition element_name :: "element \<Rightarrow> string option" where
  "element_name element =
     dict_get (case e_tags element of None \<Rightarrow> [] | Some t \<Rightarrow> t) ''name''"

definition named :: "element list \<Rightarrow> string list" where
  "named es = filter (\<lambda>n. n \<noteq> []) (List.map_filter element_name es)"

text \<open>An entry with a website or encyclopedia reference.\<close>

definition has_reference :: "place \<Rightarrow> bool" where
  "has_reference p =
     (truthy (dict_get (p_tags p) ''wikipedia'') \<or> truthy (dict_get (p_tags p) ''website''))"

text \<open>
  The place name as described by two strategies only: the capture of the first pattern
  that matches, or else the capitalized words joined by a space.
\<close>

definition place_by_patterns_or_capitals :: "env \<Rightarrow> string \<Rightarrow> string" where
  "place_by_patterns_or_capitals env user_input =
     (case match_patterns env patterns user_input of
        Some place \<Rightarrow> place
      | None \<Rightarrow> py_join '' '' (capitalized_words env user_input))"

text \<open>
  The weather and places entries that a resolved query ends with: the fetched value when
  the intents ask for it and it is not empty, and no entry otherwise.
\<close>

definition weather_entry :: "env \<Rightarrow> geo \<Rightarrow> json \<Rightarrow> json option" where
  "weather_entry env g intents =
     (if (has_intent intents ''weather'' \<or> has_intent intents ''general'')
         \<and> weather_truthy (get_weather (open_meteo env) (geo_lat g) (geo_lon g)
                             DEFAULT_FORECAST_DAYS)
      then get_weather (open_meteo env) (geo_lat g) (geo_lon g) DEFAULT_FORECAST_DAYS
      else None)"

definition places_entry :: "env \<Rightarrow> geo \<Rightarrow> json \<Rightarrow> int \<Rightarrow> int \<Rightarrow> place list option" where
  "places_entry env g intents r m =
     (if (has_intent intents ''places'' \<or> has_intent intents ''general''
          \<or> has_intent intents ''itinerary'')
         \<and> get_tourist_places (overpass env) (geo_lat g) (geo_lon g) r m \<noteq> []
      then Some (get_tourist_places (overpass env) (geo_lat g) (geo_lon g) r m)
      else None)"

section \<open>Example inputs\<close>

text \<open>
  The text methods on ASCII text: on a text of ASCII characters they give what
  \<^verbatim>\<open>str.lower\<close>, \<^verbatim>\<open>str.strip\<close>, \<^verbatim>\<open>str.split\<close> and \<^verbatim>\<open>str.isupper\<close> give. White space is
  the characters 9 to 13 and 28 to 32, the letters with case are A to Z and a to z.
\<close>

definition is_space :: "char \<Rightarrow> bool" where
  "is_space c = (let n = (of_char c :: nat) in (9 \<le> n \<and> n \<le> 13) \<or> (28 \<le> n \<and> n \<le> 32))"

definition is_upper :: "char \<Rightarrow> bool" where
  "is_upper c = (c \<in> set ''ABCDEFGHIJKLMNOPQRSTUVWXYZ'')"

definition is_lower :: "char \<Rightarrow> bool" where
  "is_lower c = (c \<in> set ''abcdefghijklmnopqrstuvwxyz'')"

definition to_lower :: "char \<Rightarrow> char" where
  "to_lower c =
     (case map_of (zip ''ABCDEFGHIJKLMNOPQRSTUVWXYZ'' ''abcdefghijklmnopqrstuvwxyz'') c of
        None \<Rightarrow> c
      | Some l \<Rightarrow> l)"

definition ascii_lower :: "string \<Rightarrow> string" where
  "ascii_lower s = map to_lower s"

definition ascii_strip :: "string \<Rightarrow> string" where
  "ascii_strip s = strip_where is_space s"

fun split_from :: "string \<Rightarrow> string \<Rightarrow> string list" where
  "split_from word [] = (if word = [] then [] else [word])"
| "split_from word (c # cs) =
     (if is_space c then (if word = [] then split_from [] cs else word # split_from [] cs)
      else split_from (word @ [c]) cs)"

definition ascii_split :: "string \<Rightarrow> string list" where
  "ascii_split s = split_from [] s"

definition ascii_isupper :: "string \<Rightarrow> bool" where
  "ascii_isupper s = (list_ex is_upper s \<and> list_all (\<lambda>c. \<not> is_lower c) s)"

text \<open>
  Candidates, elements and an environment for the concrete evaluations below. The queries
  evaluated there are ASCII texts. On them, \<open>re_search\<close> of the environment gives what
  \<^verbatim>\<open>re.search\<close> gives for the four patterns: only the last pattern matches
  \<^verbatim>\<open>bengalururu trip\<close>, capturing the text before \<^verbatim>\<open>trip\<close>, and no pattern matches the
  other queries. All place names are texts there, so \<open>str_of\<close> is not used.
\<close>

definition paris_candidates :: "candidate list" where
  "paris_candidates =
     [\<lparr>c_type = Some ''suburb'', c_lat = Some 48.9, c_lon = Some 2.4,
       c_display_name = Some ''La Villette, Paris''\<rparr>,
      \<lparr>c_type = Some ''city'', c_lat = Some 48.8566, c_lon = Some 2.3522,
       c_display_name = Some ''Paris, France''\<rparr>]"

definition rome_candidates :: "candidate list" where
  "rome_candidates =
     [\<lparr>c_type = None, c_lat = Some 41.9, c_lon = Some 12.5,
       c_display_name = Some ''Roma, Italia''\<rparr>,
      \<lparr>c_type = Some ''hamlet'', c_lat = Some 40, c_lon = Some 12,
       c_display_name = Some ''Rome''\<rparr>]"

definition louvre :: element where
  "louvre = \<lparr>e_lat = None, e_lon = None, e_center = Some [(''lat'', 48.86), (''lon'', 2.34)],
     e_tags = Some [(''name'', ''Louvre''), (''tourism'', ''museum''),
                    (''website'', ''https://www.louvre.fr'')]\<rparr>"

definition tuileries :: element where
  "tuileries = \<lparr>e_lat = Some 48.863, e_lon = Some 2.327, e_center = None,
     e_tags = Some [(''name'', ''Jardin des Tuileries''), (''leisure'', ''park'')]\<rparr>"

definition kiosk :: element where
  "kiosk = \<lparr>e_lat = Some 48.87, e_lon = Some 2.33, e_center = None,
     e_tags = Some [(''name'', ''Kiosk''), (''amenity'', ''place_of_worship'')]\<rparr>"

definition unnamed :: element where
  "unnamed = \<lparr>e_lat = Some 48.8, e_lon = Some 2.3, e_center = None,
     e_tags = Some [(''tourism'', ''viewpoint'')]\<rparr>"

definition equator :: element where
  "equator = \<lparr>e_lat = Some 0, e_lon = Some 12.5, e_center = Some [(''lat'', 1), (''lon'', 2)],
     e_tags = Some [(''name'', ''Marker'')]\<rparr>"

definition sunny :: json where
  "sunny = JObj [(''current'', JObj [(''temperature_2m'', JNum 18), (''weather_code'', JNum 0)])]"

definition example_env :: env where
  "example_env =
     \<lparr>str_lower = ascii_lower, str_strip = ascii_strip, str_split = ascii_split,
      str_isupper = ascii_isupper,
      str_of = (\<lambda>v. []),
      re_search = (\<lambda>pattern s.
         if pattern = patterns ! 3 \<and> s = ''bengalururu trip'' then Some ''bengalururu '' else None),
      nominatim = (\<lambda>q. if q = JStr ''Paris'' then Inr paris_candidates
                         else if q = JStr ''Rome'' then Inr rome_candidates
                         else if q = JStr ''Atlantis'' then Inl Timeout
                         else if q = JStr ''Nowhere''
                         then Inr [\<lparr>c_type = Some ''city'', c_lat = None, c_lon = Some 1,
                                    c_display_name = Some ''Nowhere''\<rparr>]
                         else Inr []),
      open_meteo = (\<lambda>lat lon days. if lat = 48.8566 then Inr sunny else Inl RequestException),
      overpass = (\<lambda>lat lon radius cap.
         if radius \<le> 0 then Inl RequestException
         else Inr \<lparr>osm_elements = Some [kiosk, unnamed, tuileries, louvre, kiosk]\<rparr>),
      groq_intent = (\<lambda>q.
         if q = ''What's the weather in Paris?''
         then Inr [(''place'', JStr ''Paris''), (''intents'', JArr [JStr ''weather'']),
                   (''days'', JNum 1), (''is_valid_query'', JBool True)]
         else if q = ''Plan a 3-day trip to Rome''
         then Inr [(''place'', JStr ''Rome''),
                   (''intents'', JArr [JStr ''places'', JStr ''itinerary'', JStr ''tips'']),
                   (''days'', JNum 3), (''is_valid_query'', JBool True)]
         else if q = ''Weather in Atlantis''
         then Inr [(''place'', JStr ''Atlantis''), (''intents'', JArr [JStr ''weather''])]
         else if q = ''I want to travel''
         then Inr [(''place'', JStr ''null''), (''intents'', JArr [JStr ''general'']),
                   (''days'', JNum 1), (''is_valid_query'', JBool False)]
         else if q = ''ok''
         then Inr [(''place'', JNull), (''intents'', JNull), (''days'', JNum 1),
                   (''is_valid_query'', JBool False)]
         else Inl JSONDecodeError),
      groq_spelling = (\<lambda>p.
         if p = JStr ''bengalururu''
         then Inr ('' '' @ [CHR 0x22] @ ''Bangalore'' @ [CHR 0x22] @ ''  '')
         else Inl Timeout),
      groq_tips = (\<lambda>place_name temp places_list. Inr ''Wear good shoes.''),
      groq_itinerary = (\<lambda>days place_name places_list. Inr ''**Day 1** Forum''),
      groq_summary = (\<lambda>q p r i. Inl OtherException)\<rparr>"

section \<open>Properties\<close>

subsection \<open>Decimal numerals\<close>

lemma str_nat_nonempty: "str_nat n \<noteq> []"
  by (subst str_nat.simps) simp

lemma digit_val_digit_char: "d < 10 \<Longrightarrow> digit_val (digit_char d) = d"
proof -
  assume "d < 10"
  then have "d \<in> {0, 1, 2, 3, 4, 5, 6, 7, 8, 9}" by auto
  then show ?thesis by (auto simp: digit_val_def digit_char_def)
qed

lemma numeral_val_str_nat: "numeral_val (str_nat n) = n"
proof (induction n rule: str_nat.induct)
  case (1 n)
  show ?case
  proof (cases "n < 10")
    case True
    then show ?thesis
      by (subst str_nat.simps) (simp add: numeral_val_def digit_val_digit_char)
  next
    case False
    with 1 have "numeral_val (str_nat (n div 10)) = n div 10" by simp
    with False show ?thesis
      by (subst str_nat.simps) (simp add: numeral_val_def digit_val_digit_char)
  qed
qed

lemma str_int_nonempty: "str_int i \<noteq> []"
  by (simp add: str_int_def str_nat_nonempty)

lemma dom_WEATHER_CODES:
  "dom WEATHER_CODES =
     {0, 1, 2, 3, 45, 48, 51, 53, 55, 56, 57, 61, 63, 65, 66, 67, 71, 73, 75, 77,
      80, 81, 82, 85, 86, 95, 96, 99}"
  by (auto simp: WEATHER_CODES_def WEATHER_CODES_items_def dom_map_of_conv_image_fst)

subsection \<open>The weather code lookup\<close>

text \<open>
  C4. \<^const>\<open>get_weather_description\<close> is a total function from integer codes to strings
  (it has no error result). A code of the table gets the table's label. A code outside
  the table gets \<^verbatim>\<open>Unknown (\<close>, the code's decimal numeral and \<^verbatim>\<open>)\<close>: a string that is
  not empty and contains the numeral.
\<close>

theorem get_weather_description_total:
  "(\<forall>label. WEATHER_CODES code = Some label \<longrightarrow> get_weather_description code = label) \<and>
   (code \<notin> dom WEATHER_CODES \<longrightarrow>
      get_weather_description code = ''Unknown ('' @ str_int code @ '')'' \<and>
      get_weather_description code \<noteq> [] \<and>
      sublist (str_int code) (get_weather_description code))"
proof (intro conjI allI impI)
  fix label
  assume "WEATHER_CODES code = Some label"
  then show "get_weather_description code = label"
    by (simp add: get_weather_description_def)
next
  assume out: "code \<notin> dom WEATHER_CODES"
  then have none: "WEATHER_CODES code = None" by (simp add: domIff)
  show eq: "get_weather_description code = ''Unknown ('' @ str_int code @ '')''"
    using none by (simp add: get_weather_description_def)
  show "get_weather_description code \<noteq> []"
    using eq by simp
  show "sublist (str_int code) (get_weather_description code)"
    unfolding eq by (rule sublist_appendI)
qed

theorem get_weather_description_total_witness:
  "get_weather_description 3 =
     ''Overcast '' @ [CHR 0xE2, CHR 0x98, CHR 0x81, CHR 0xEF, CHR 0xB8, CHR 0x8F] \<and>
   get_weather_description 4 = ''Unknown (4)'' \<and>
   get_weather_description (- 120) = ''Unknown (-120)''"
proof -
  have in3: "WEATHER_CODES 3 =
      Some (''Overcast '' @ [CHR 0xE2, CHR 0x98, CHR 0x81, CHR 0xEF, CHR 0xB8, CHR 0x8F])"
    by (simp add: WEATHER_CODES_def WEATHER_CODES_items_def)
  have out4: "(4::int) \<notin> dom WEATHER_CODES" and outm: "(- 120::int) \<notin> dom WEATHER_CODES"
    by (simp_all add: dom_WEATHER_CODES)
  have s4: "str_int 4 = ''4''" and sm: "str_int (- 120) = ''-120''"
    by (simp_all add: str_int_def str_nat.simps digit_char_def)
  show ?thesis
    using get_weather_description_total [of 3] get_weather_description_total [of 4]
      get_weather_description_total [of "- 120"] in3 out4 outm s4 sm
    by simp
qed

subsection \<open>Geocoding: which candidate is chosen\<close>

lemma prefer_loop_find:
  "prefer_loop data = map_option geo_result (List.find is_preferred data)"
  by (induction data) simp_all

lemma get_coordinates_Inr:
  "search place_name = Inr data \<Longrightarrow>
   get_coordinates search place_name =
     (case data of
        [] \<Rightarrow> None
      | first # _ \<Rightarrow>
          (case geo_result
                  (case List.find is_preferred data of Some item \<Rightarrow> item | None \<Rightarrow> first) of
             Inl _ \<Rightarrow> None
           | Inr g \<Rightarrow> Some g))"
  by (auto simp: get_coordinates_def get_coordinates_try_def prefer_loop_find
      split: list.splits option.splits sum.splits exn.splits)

lemma is_preferred_iff:
  "is_preferred item \<longleftrightarrow>
     c_type item \<in> Some ` {''city'', ''town'', ''village'', ''municipality'', ''administrative''}"
  by (auto simp: is_preferred_def opt_in_def PREFERRED_TYPES_def split: option.splits)

lemma geo_result_complete:
  "c_lat item = Some la \<Longrightarrow> c_lon item = Some lo \<Longrightarrow> c_display_name item = Some dn \<Longrightarrow>
   geo_result item = Inr \<lparr>geo_lat = la, geo_lon = lo, geo_display_name = dn\<rparr>"
  by (simp add: geo_result_def)

text \<open>
  C5. When the endpoint returns a candidate array: an empty array gives \<open>None\<close>; if some
  candidate has a type among city, town, village, municipality and administrative, the
  result is the latitude, longitude and display name that the first such candidate carries;
  if none has, it is those that the first candidate of the array carries.
\<close>

theorem get_coordinates_selection:
  assumes "nominatim env place_name = Inr data"
  shows "(data = [] \<longrightarrow> get_coordinates (nominatim env) place_name = None) \<and>
    (\<forall>item la lo dn.
        List.find (\<lambda>c. c_type c \<in> Some ` {''city'', ''town'', ''village'', ''municipality'',
                                            ''administrative''}) data = Some item \<and>
        c_lat item = Some la \<and> c_lon item = Some lo \<and> c_display_name item = Some dn \<longrightarrow>
        get_coordinates (nominatim env) place_name =
          Some \<lparr>geo_lat = la, geo_lon = lo, geo_display_name = dn\<rparr>) \<and>
    (\<forall>first rest la lo dn.
        data = first # rest \<and>
        List.find (\<lambda>c. c_type c \<in> Some ` {''city'', ''town'', ''village'', ''municipality'',
                                            ''administrative''}) data = None \<and>
        c_lat first = Some la \<and> c_lon first = Some lo \<and> c_display_name first = Some dn \<longrightarrow>
        get_coordinates (nominatim env) place_name =
          Some \<lparr>geo_lat = la, geo_lon = lo, geo_display_name = dn\<rparr>)"
proof -
  have find_eq:
    "List.find (\<lambda>c. c_type c \<in> Some ` {''city'', ''town'', ''village'', ''municipality'',
                                        ''administrative''}) data
       = List.find is_preferred data"
    by (rule arg_cong [where f = "\<lambda>P. List.find P data"]) (auto simp: is_preferred_iff fun_eq_iff)
  show ?thesis
    unfolding find_eq get_coordinates_Inr [of "nominatim env" place_name data, OF assms]
    by (auto simp: geo_result_complete split: list.splits)
qed

theorem get_coordinates_selection_witness:
  "get_coordinates (nominatim example_env) (JStr ''Paris'') =
     Some \<lparr>geo_lat = 48.8566, geo_lon = 2.3522, geo_display_name = ''Paris, France''\<rparr> \<and>
   get_coordinates (nominatim example_env) (JStr ''Rome'') =
     Some \<lparr>geo_lat = 41.9, geo_lon = 12.5, geo_display_name = ''Roma, Italia''\<rparr> \<and>
   get_coordinates (nominatim example_env) (JStr ''Ys'') = None"
proof -
  have paris: "nominatim example_env (JStr ''Paris'') = Inr paris_candidates"
    and rome: "nominatim example_env (JStr ''Rome'') = Inr rome_candidates"
    and ys: "nominatim example_env (JStr ''Ys'') = Inr []"
    by (simp_all add: example_env_def)
  show ?thesis
    using get_coordinates_selection [OF paris] get_coordinates_selection [OF rome]
      get_coordinates_selection [OF ys]
    by (simp add: paris_candidates_def rome_candidates_def)
qed

subsection \<open>Points of interest: deduplication, ranking and truncation\<close>

lemmas places_eval =
  get_tourist_places_def get_tourist_places_try_def example_env_def kiosk_def unnamed_def
  tuileries_def louvre_def equator_def dict_get_def dict_get_default_def place_info_def
  element_coords_def num_truthy_def dict_truthy_def py_or_def rank_def truthy_def opt_in_def
  py_len_def is_continuation_def py_slice_to_def Let_def

lemma p_name_place_info [simp]: "p_name (place_info element tags n) = n"
  by (simp add: place_info_def)

lemma named_Cons:
  "named (e # es) =
     (case element_name e of
        None \<Rightarrow> named es
      | Some n \<Rightarrow> if n \<noteq> [] then n # named es else named es)"
  by (simp add: named_def split: option.splits)

text \<open>
  The loop keeps the names of the collected places distinct and equal to the set of names
  seen; it adds exactly the non-empty names of the elements it reads.
\<close>

lemma collect_places_names:
  "seen = set (map p_name places) \<Longrightarrow> distinct (map p_name places) \<Longrightarrow>
   distinct (map p_name (collect_places es places seen)) \<and>
   set (map p_name (collect_places es places seen)) = set (map p_name places) \<union> set (named es)"
proof (induction es arbitrary: places seen)
  case Nil
  then show ?case by (simp add: named_def)
next
  case (Cons e es)
  show ?case
  proof (cases "element_name e")
    case None
    then show ?thesis
      using Cons.IH [OF Cons.prems] by (simp add: named_Cons element_name_def Let_def)
  next
    case (Some n)
    show ?thesis
    proof (cases "n \<noteq> [] \<and> n \<notin> seen")
      case True
      let ?tags = "case e_tags e of None \<Rightarrow> [] | Some t \<Rightarrow> t"
      let ?places = "places @ [place_info e ?tags n]"
      have s: "insert n seen = set (map p_name ?places)" using Cons.prems by simp
      have d: "distinct (map p_name ?places)" using Cons.prems True by simp
      have step: "collect_places (e # es) places seen = collect_places es ?places (insert n seen)"
        using Some True by (simp add: element_name_def Let_def)
      show ?thesis
        unfolding step using Cons.IH [OF s d] Some True by (auto simp: named_Cons)
    next
      case False
      have step: "collect_places (e # es) places seen = collect_places es places seen"
        using Some False by (auto simp: element_name_def Let_def)
      show ?thesis
        unfolding step using Cons.IH [OF Cons.prems] Some False Cons.prems(1)
        by (auto simp: named_Cons)
    qed
  qed
qed

lemma collect_places_distinct: "distinct (map p_name (collect_places es [] {}))"
  using collect_places_names [of "{}" "[]" es] by simp

lemma collect_places_length: "length (collect_places es [] {}) = length (remdups (named es))"
proof -
  have "length (collect_places es [] {}) = length (map p_name (collect_places es [] {}))"
    by simp
  also have "\<dots> = card (set (map p_name (collect_places es [] {})))"
    using collect_places_distinct [of es] by (simp only: distinct_card)
  also have "\<dots> = card (set (named es))"
    using collect_places_names [of "{}" "[]" es] by simp
  finally show ?thesis by (simp add: length_remdups_card_conv)
qed

lemma distinct_names_sort_take:
  assumes "distinct (map p_name ps)"
  shows "distinct (map p_name (take n (sort_key rank ps)))"
proof -
  have "distinct (map p_name (sort_key rank ps))"
    using assms by (simp add: distinct_map)
  then have "distinct (take n (map p_name (sort_key rank ps)))"
    by (rule distinct_take)
  then show ?thesis by (simp add: take_map)
qed

lemma sorted_rank_sort_take: "sorted (map rank (take n (sort_key rank ps)))"
proof -
  have "sorted (take n (map rank (sort_key rank ps)))"
    by (rule sorted_wrt_take) simp
  then show ?thesis by (simp add: take_map)
qed

lemma has_reference_rank: "has_reference p \<longleftrightarrow> fst (rank p) = 0"
  by (simp add: has_reference_def rank_def Let_def)

lemma sorted_rank_reference_first:
  assumes "sorted (map rank r)" "i < j" "j < length r" "has_reference (r ! j)"
  shows "has_reference (r ! i)"
proof -
  have "rank (r ! i) \<le> rank (r ! j)"
    using assms(1-3) sorted_nth_mono [of "map rank r" i j] by simp
  then have "fst (rank (r ! i)) \<le> fst (rank (r ! j))"
    by (auto simp: less_eq_prod_def)
  with assms(4) show ?thesis by (simp add: has_reference_rank)
qed

text \<open>
  C1, as stated, at a negative limit: the response of the example has three deduplicated
  named elements, more than the limit \<open>- 1\<close>; the slice \<^verbatim>\<open>[:-1]\<close> drops the last of the
  three ranked places, so two places are returned and the length is not the limit.
\<close>

theorem negative_limit_counterexample:
  "overpass example_env 48.8566 2.3522 30000 (- 1 * 5) =
     Inr \<lparr>osm_elements = Some [kiosk, unnamed, tuileries, louvre, kiosk]\<rparr> \<and>
   int (length (remdups (named [kiosk, unnamed, tuileries, louvre, kiosk]))) > - 1 \<and>
   map p_name (get_tourist_places (overpass example_env) 48.8566 2.3522 30000 (- 1)) =
     [''Louvre'', ''Jardin des Tuileries''] \<and>
   int (length (get_tourist_places (overpass example_env) 48.8566 2.3522 30000 (- 1))) \<noteq> - 1"
  by (simp add: places_eval named_def element_name_def)

text \<open>
  C1, amended: for a limit that is not negative and a response whose deduplicated named
  elements number strictly more than the limit, the returned list has exactly
  \<open>limit\<close> entries, their names are pairwise distinct, the list is sorted ascending by
  the composite key \<^const>\<open>rank\<close>, and no entry with a website or encyclopedia reference
  comes after an entry without one.
\<close>

theorem get_tourist_places_ranked:
  assumes resp: "overpass env lat lon radius (limit * 5) = Inr data"
    and nonneg: "0 \<le> limit"
    and more: "int (length (remdups (named
                 (case osm_elements data of None \<Rightarrow> [] | Some es \<Rightarrow> es)))) > limit"
  shows "length (get_tourist_places (overpass env) lat lon radius limit) = nat limit \<and>
     distinct (map p_name (get_tourist_places (overpass env) lat lon radius limit)) \<and>
     sorted (map rank (get_tourist_places (overpass env) lat lon radius limit)) \<and>
     (\<forall>i j. i < j \<and> j < length (get_tourist_places (overpass env) lat lon radius limit) \<and>
         has_reference (get_tourist_places (overpass env) lat lon radius limit ! j) \<longrightarrow>
         has_reference (get_tourist_places (overpass env) lat lon radius limit ! i))"
proof -
  let ?es = "case osm_elements data of None \<Rightarrow> [] | Some es \<Rightarrow> es"
  let ?places = "collect_places ?es [] {}"
  let ?r = "get_tourist_places (overpass env) lat lon radius limit"
  have len: "int (length ?places) > limit" using more by (simp add: collect_places_length)
  have r: "?r = take (nat limit) (sort_key rank ?places)"
    using resp len nonneg
    by (simp add: get_tourist_places_def get_tourist_places_try_def py_slice_to_def Let_def)
  have 1: "length ?r = nat limit" unfolding r using len nonneg by simp
  have 2: "distinct (map p_name ?r)"
    unfolding r by (rule distinct_names_sort_take) (rule collect_places_distinct)
  have 3: "sorted (map rank ?r)" unfolding r by (rule sorted_rank_sort_take)
  have 4: "\<forall>i j. i < j \<and> j < length ?r \<and> has_reference (?r ! j) \<longrightarrow> has_reference (?r ! i)"
    using sorted_rank_reference_first [OF 3] by blast
  from 1 2 3 4 show ?thesis by blast
qed

theorem get_tourist_places_ranked_witness:
  "int (length (remdups (named [kiosk, unnamed, tuileries, louvre, kiosk]))) > 2 \<and>
   length (get_tourist_places (overpass example_env) 48.8566 2.3522 30000 2) = 2 \<and>
   map p_name (get_tourist_places (overpass example_env) 48.8566 2.3522 30000 2) =
     [''Louvre'', ''Jardin des Tuileries''] \<and>
   map rank (get_tourist_places (overpass example_env) 48.8566 2.3522 30000 2) =
     [(0, 0, 1, 1, 6), (1, 1, 1, 0, 20)]"
proof -
  have resp: "overpass example_env 48.8566 2.3522 30000 (2 * 5) =
      Inr \<lparr>osm_elements = Some [kiosk, unnamed, tuileries, louvre, kiosk]\<rparr>"
    by (simp add: example_env_def)
  have more: "int (length (remdups (named
      (case osm_elements \<lparr>osm_elements = Some [kiosk, unnamed, tuileries, louvre, kiosk]\<rparr> of
         None \<Rightarrow> [] | Some es \<Rightarrow> es)))) > 2"
    by (simp add: named_def element_name_def dict_get_def kiosk_def
        unnamed_def tuileries_def louvre_def)
  have names: "map p_name (get_tourist_places (overpass example_env) 48.8566 2.3522 30000 2) =
      [''Louvre'', ''Jardin des Tuileries'']"
    by (simp add: places_eval)
  have ranks: "map rank (get_tourist_places (overpass example_env) 48.8566 2.3522 30000 2) =
      [(0, 0, 1, 1, 6), (1, 1, 1, 0, 20)]"
    by (simp add: places_eval)
  show ?thesis
    using get_tourist_places_ranked [OF resp _ more] more names ranks by simp
qed

subsection \<open>Points of interest: coordinates of a place\<close>

text \<open>
  Every returned place was built from a named element of the response, and carries the
  coordinates computed for that element.
\<close>

lemma collect_places_origin:
  "p \<in> set (collect_places es places seen) \<Longrightarrow>
   p \<in> set places \<or>
   (\<exists>e \<in> set es. \<exists>n. element_name e = Some n \<and> n \<noteq> [] \<and>
      p = place_info e (case e_tags e of None \<Rightarrow> [] | Some t \<Rightarrow> t) n)"
proof (induction es arbitrary: places seen)
  case Nil
  then show ?case by simp
next
  case (Cons e es)
  show ?case
  proof (cases "element_name e")
    case None
    with Cons.prems have "p \<in> set (collect_places es places seen)"
      by (simp add: element_name_def Let_def)
    from Cons.IH [OF this] show ?thesis by auto
  next
    case (Some n)
    show ?thesis
    proof (cases "n \<noteq> [] \<and> n \<notin> seen")
      case True
      with Some Cons.prems have "p \<in> set (collect_places es
          (places @ [place_info e (case e_tags e of None \<Rightarrow> [] | Some t \<Rightarrow> t) n])
          (insert n seen))"
        by (simp add: element_name_def Let_def)
      from Cons.IH [OF this] Some True show ?thesis by auto
    next
      case False
      with Some Cons.prems have "p \<in> set (collect_places es places seen)"
        by (auto simp: element_name_def Let_def)
      from Cons.IH [OF this] show ?thesis by auto
    qed
  qed
qed

lemma get_tourist_places_origin:
  assumes "osm_api lat lon radius (limit * 5) = Inr data"
    and "p \<in> set (get_tourist_places osm_api lat lon radius limit)"
  shows "\<exists>e \<in> set (case osm_elements data of None \<Rightarrow> [] | Some es \<Rightarrow> es).
           element_name e = Some (p_name p) \<and> (p_lat p, p_lon p) = element_coords e"
proof -
  let ?es = "case osm_elements data of None \<Rightarrow> [] | Some es \<Rightarrow> es"
  have "set (get_tourist_places osm_api lat lon radius limit) \<subseteq> set (collect_places ?es [] {})"
    using assms(1)
    by (auto simp: get_tourist_places_def get_tourist_places_try_def py_slice_to_def Let_def
        dest: in_set_takeD)
  with assms(2) have "p \<in> set (collect_places ?es [] {})" by blast
  from collect_places_origin [OF this] show ?thesis
    by (auto simp: place_info_def)
qed

text \<open>
  An element without a latitude of its own that carries a centre gets the latitude and
  longitude of the centre; an element whose latitude is present and not zero keeps its own
  coordinates, and so does any element without a centre.
\<close>

lemma element_coords_centre:
  "e_lat element = None \<Longrightarrow> e_center element = Some center \<Longrightarrow> center \<noteq> [] \<Longrightarrow>
   element_coords element = (dict_get center ''lat'', dict_get center ''lon'')"
  by (simp add: element_coords_def num_truthy_def dict_truthy_def)

lemma element_coords_direct:
  "e_lat element = Some la \<Longrightarrow> la \<noteq> 0 \<or> \<not> dict_truthy (e_center element) \<Longrightarrow>
   element_coords element = (Some la, e_lon element)"
  by (auto simp: element_coords_def num_truthy_def)

text \<open>
  C8, at an element with the direct coordinates \<open>(0, 12.5)\<close> and a centre \<open>(1, 2)\<close>: the
  zero latitude counts as absent, and the place gets the coordinates of the centre instead
  of its own.
\<close>

theorem zero_latitude_replaced_by_centre:
  "e_lat equator = Some 0 \<and> e_lon equator = Some 12.5 \<and>
   map (\<lambda>p. (p_name p, p_lat p, p_lon p))
     (get_tourist_places (\<lambda>lat lon radius cap. Inr \<lparr>osm_elements = Some [equator]\<rparr>)
        0 12 30000 8) =
     [(''Marker'', Some 1, Some 2)]"
  by (simp add: places_eval)

subsection \<open>The clients degrade instead of raising\<close>

text \<open>
  C7. Whatever exception \<open>e\<close> is raised in the \<^verbatim>\<open>try\<close> block of a client, by the
  request itself or by the handling of its payload, the client returns its degraded
  value: \<open>None\<close> for the coordinates and the weather, the empty list for the places,
  and the fixed placeholder text for the tips and the itinerary.
\<close>

theorem clients_degrade:
  "(search place_name = Inl e \<or> get_coordinates_try (search place_name) = Inl e \<longrightarrow>
      get_coordinates search place_name = None) \<and>
   (meteo lat lon days = Inl e \<longrightarrow> get_weather meteo lat lon days = None) \<and>
   (osm_api lat lon radius (limit * 5) = Inl e \<longrightarrow>
      get_tourist_places osm_api lat lon radius limit = []) \<and>
   (current_temperature weather_data = Inl e
      \<or> get_travel_tips_try tips_llm place_name weather_data places = Inl e \<longrightarrow>
      get_travel_tips tips_llm place_name weather_data places =
        ''Unable to generate travel tips at this time.'') \<and>
   (get_itinerary_try itinerary_llm place_name places n = Inl e \<longrightarrow>
      get_itinerary itinerary_llm place_name places n =
        ''Unable to generate itinerary at this time.'')"
  by (auto simp: get_coordinates_def get_coordinates_try_def get_weather_def get_weather_try_def
      get_tourist_places_def get_tourist_places_try_def get_travel_tips_def
      get_travel_tips_try_def get_itinerary_def split: exn.splits)

theorem clients_degrade_witness:
  "get_coordinates (nominatim example_env) (JStr ''Atlantis'') = None \<and>
   get_coordinates (nominatim example_env) (JStr ''Nowhere'') = None \<and>
   get_weather (open_meteo example_env) 0 0 7 = None \<and>
   get_tourist_places (overpass example_env) 48.8566 2.3522 0 8 = [] \<and>
   get_travel_tips (groq_tips example_env) (JStr ''Paris'') (JArr [JNum 1]) [] =
     ''Unable to generate travel tips at this time.'' \<and>
   get_itinerary (\<lambda>days place_name places_list. Inl OtherException) (JStr ''Paris'') [] (JNum 1) =
     ''Unable to generate itinerary at this time.''"
proof -
  have a: "nominatim example_env (JStr ''Atlantis'') = Inl Timeout"
    and b: "get_coordinates_try (nominatim example_env (JStr ''Nowhere'')) = Inl OtherException"
    and c: "open_meteo example_env 0 0 7 = Inl RequestException"
    and d: "overpass example_env 48.8566 2.3522 0 (8 * 5) = Inl RequestException"
    and f: "current_temperature (JArr [JNum 1]) = Inl OtherException"
    and g: "get_itinerary_try (\<lambda>days place_name places_list. Inl OtherException) (JStr ''Paris'') [] (JNum 1)
              = Inl OtherException"
    by (simp_all add: example_env_def get_coordinates_try_def geo_result_def is_preferred_def
        opt_in_def PREFERRED_TYPES_def current_temperature_def get_itinerary_try_def)
  have 1: "get_coordinates (nominatim example_env) (JStr ''Atlantis'') = None"
    using clients_degrade [where search = "nominatim example_env"
        and place_name = "JStr ''Atlantis''" and e = Timeout, THEN conjunct1] a
    by simp
  have 2: "get_coordinates (nominatim example_env) (JStr ''Nowhere'') = None"
    using clients_degrade [where search = "nominatim example_env"
        and place_name = "JStr ''Nowhere''" and e = OtherException, THEN conjunct1] b
    by simp
  have 3: "get_weather (open_meteo example_env) 0 0 7 = None"
    using clients_degrade [where e = RequestException and meteo = "open_meteo example_env"
        and lat = 0 and lon = 0 and days = 7, THEN conjunct2, THEN conjunct1] c
    by simp
  have 4: "get_tourist_places (overpass example_env) 48.8566 2.3522 0 8 = []"
    using clients_degrade [where e = RequestException and osm_api = "overpass example_env"
        and lat = "48.8566" and lon = "2.3522" and radius = 0 and limit = 8, THEN conjunct2, THEN conjunct2, THEN conjunct1] d
    by simp
  have 5: "get_travel_tips (groq_tips example_env) (JStr ''Paris'') (JArr [JNum 1]) [] =
      ''Unable to generate travel tips at this time.''"
    using clients_degrade [where e = OtherException and place_name = "JStr ''Paris''"
        and weather_data = "JArr [JNum 1]" and tips_llm = "groq_tips example_env"
        and places = "[]", THEN conjunct2, THEN conjunct2, THEN conjunct2, THEN conjunct1] f
    by simp
  have 6: "get_itinerary (\<lambda>days place_name places_list. Inl OtherException) (JStr ''Paris'') []
      (JNum 1) = ''Unable to generate itinerary at this time.''"
    using clients_degrade [where e = OtherException and place_name = "JStr ''Paris''"
        and places = "[]"
        and itinerary_llm = "\<lambda>days place_name places_list. Inl OtherException"
        and n = "JNum 1", THEN conjunct2, THEN conjunct2, THEN conjunct2, THEN conjunct2] g
    by simp
  from 1 2 3 4 5 6 show ?thesis by blast
qed

subsection \<open>The orchestrator: the outcomes of a query\<close>

lemmas text_eval =
  ascii_lower_def to_lower_def is_upper_def is_lower_def is_space_def ascii_strip_def
  py_strip_chars_def strip_where_def ascii_split_def ascii_isupper_def first_char_def
  is_continuation_def capitalized_words_def STOP_WORDS_def GREETING_WORDS_def patterns_def
  Let_def

lemma example_text:
  "str_lower example_env = ascii_lower"
  "str_strip example_env = ascii_strip"
  "str_split example_env = ascii_split"
  "str_isupper example_env = ascii_isupper"
  "re_search example_env =
     (\<lambda>pattern s. if pattern = patterns ! 3 \<and> s = ''bengalururu trip''
                   then Some ''bengalururu '' else None)"
  by (simp_all add: example_env_def)

lemma example_open_meteo:
  "open_meteo example_env =
     (\<lambda>lat lon days. if lat = 48.8566 then Inr sunny else Inl RequestException)"
  by (simp add: example_env_def)

lemma example_groq_intent:
  "groq_intent example_env ''What's the weather in Paris?'' =
     Inr [(''place'', JStr ''Paris''), (''intents'', JArr [JStr ''weather'']),
          (''days'', JNum 1), (''is_valid_query'', JBool True)]"
  "groq_intent example_env ''Plan a 3-day trip to Rome'' =
     Inr [(''place'', JStr ''Rome''),
          (''intents'', JArr [JStr ''places'', JStr ''itinerary'', JStr ''tips'']),
          (''days'', JNum 3), (''is_valid_query'', JBool True)]"
  "groq_intent example_env ''Weather in Atlantis'' =
     Inr [(''place'', JStr ''Atlantis''), (''intents'', JArr [JStr ''weather''])]"
  "groq_intent example_env ''I want to travel'' =
     Inr [(''place'', JStr ''null''), (''intents'', JArr [JStr ''general'']),
          (''days'', JNum 1), (''is_valid_query'', JBool False)]"
  "groq_intent example_env ''ok'' =
     Inr [(''place'', JNull), (''intents'', JNull), (''days'', JNum 1),
          (''is_valid_query'', JBool False)]"
  by (simp_all add: example_env_def)

lemma example_groq_intent_fails:
  "q \<notin> {''What's the weather in Paris?'', ''Plan a 3-day trip to Rome'', ''Weather in Atlantis'',
         ''I want to travel'', ''ok''} \<Longrightarrow>
   groq_intent example_env q = Inl JSONDecodeError"
  by (simp add: example_env_def)

lemmas query_eval =
  understand_query_def normalise_place_def dict_get_default_def place_of_def intents_of_def
  days_of_def is_valid_of_def example_groq_intent

lemma has_intent_list: "has_intent (JArr (map JStr xs)) s \<longleftrightarrow> s \<in> set xs"
  by (auto simp: has_intent_def)

lemma process_query_raises:
  assumes "py_contains (intents_of (understand_query env user_input)) ''greeting'' = Inl e"
  shows "process_query env user_input search_radius max_places =
     (Inl e, [Call_understand_query user_input])"
  using assms by (simp add: process_query_def Let_def)

lemma process_query_rejected:
  assumes "py_contains (intents_of (understand_query env user_input)) ''greeting'' = Inr greeting"
    and "greeting \<or> \<not> json_truthy (place_of (understand_query env user_input))
         \<or> \<not> json_truthy (is_valid_of (understand_query env user_input))"
  shows "process_query env user_input search_radius max_places =
     (Inr greeting_bundle, [Call_understand_query user_input])"
  using assms by (auto simp: process_query_def Let_def)

lemma process_query_not_found:
  assumes "py_contains (intents_of (understand_query env user_input)) ''greeting'' = Inr False"
    and "json_truthy (place_of (understand_query env user_input))"
    and "json_truthy (is_valid_of (understand_query env user_input))"
    and "get_coordinates (nominatim env) (place_of (understand_query env user_input)) = None"
  shows "process_query env user_input search_radius max_places =
     (Inr (not_found_bundle env (place_of (understand_query env user_input))
             (get_spelling_suggestions env (place_of (understand_query env user_input)))),
      [Call_understand_query user_input,
       Call_get_coordinates (place_of (understand_query env user_input)),
       Call_get_spelling_suggestions (place_of (understand_query env user_input))])"
  using assms by (simp add: process_query_def Let_def)

lemma process_query_resolved:
  assumes "py_contains (intents_of (understand_query env user_input)) ''greeting'' = Inr False"
    and "json_truthy (place_of (understand_query env user_input))"
    and "json_truthy (is_valid_of (understand_query env user_input))"
    and "get_coordinates (nominatim env) (place_of (understand_query env user_input)) = Some g"
  shows "\<exists>summary. process_query env user_input search_radius max_places =
     (Inr \<lparr>b_success = True, b_is_greeting = None, b_message = None,
       b_place = Some (place_of (understand_query env user_input)),
       b_display_name = Some (geo_display_name g),
       b_coordinates = Some (geo_lat g, geo_lon g),
       b_intents = Some (intents_of (understand_query env user_input)),
       b_data = Some (s_data (aggregate env (place_of (understand_query env user_input)) g
          (intents_of (understand_query env user_input))
          (days_of (understand_query env user_input)) search_radius max_places
          \<lparr>s_data = empty_data,
            s_log = [Call_understand_query user_input,
                     Call_get_coordinates (place_of (understand_query env user_input))]\<rparr>)),
       b_summary = Some summary\<rparr>,
      s_log (aggregate env (place_of (understand_query env user_input)) g
          (intents_of (understand_query env user_input))
          (days_of (understand_query env user_input)) search_radius max_places
          \<lparr>s_data = empty_data,
            s_log = [Call_understand_query user_input,
                     Call_get_coordinates (place_of (understand_query env user_input))]\<rparr>)
        @ [Call_generate_summary user_input])"
  using assms by (simp add: process_query_def Let_def)

lemma weather_truthy_entry:
  "weather_truthy (weather_entry env g intents) \<longleftrightarrow> weather_entry env g intents \<noteq> None"
  by (auto simp: weather_entry_def weather_truthy_def split: option.splits)

lemma places_truthy_entry:
  "places_truthy (places_entry env g intents r m) \<longleftrightarrow> places_entry env g intents r m \<noteq> None"
  by (auto simp: places_entry_def places_truthy_def)

lemma truthy_None: "\<not> weather_truthy None" "\<not> places_truthy None"
  by (simp_all add: weather_truthy_def places_truthy_def)

lemma fetch_weather_result:
  "fetch_weather env g intents \<lparr>s_data = empty_data, s_log = l\<rparr> =
     \<lparr>s_data = empty_data\<lparr>d_weather := weather_entry env g intents\<rparr>,
      s_log = l @ (if has_intent intents ''weather'' \<or> has_intent intents ''general''
                   then [Call_get_weather (geo_lat g) (geo_lon g)] else [])\<rparr>"
  by (simp add: fetch_weather_def weather_entry_def Let_def empty_data_def)

lemma fetch_places_result:
  "fetch_places env g intents r m \<lparr>s_data = d, s_log = l\<rparr> =
     \<lparr>s_data = (if places_entry env g intents r m = None then d
                else d\<lparr>d_places := places_entry env g intents r m\<rparr>),
      s_log = l @ (if has_intent intents ''places'' \<or> has_intent intents ''general''
                      \<or> has_intent intents ''itinerary''
                   then [Call_get_tourist_places (geo_lat g) (geo_lon g) r m] else [])\<rparr>"
  by (simp add: fetch_places_def places_entry_def Let_def)

lemma make_tips_result:
  "make_tips env pn intents \<lparr>s_data = d, s_log = l\<rparr> =
     (if has_intent intents ''tips'' \<and> weather_truthy (d_weather d) \<and> places_truthy (d_places d)
      then \<lparr>s_data = d\<lparr>d_tips := Some (get_travel_tips (groq_tips env) pn (the (d_weather d))
                                         (the (d_places d)))\<rparr>,
            s_log = l @ [Call_get_travel_tips pn]\<rparr>
      else \<lparr>s_data = d, s_log = l\<rparr>)"
  by (auto simp: make_tips_def weather_truthy_def places_truthy_def split: option.splits)

lemma make_itinerary_result:
  "make_itinerary env pn intents days \<lparr>s_data = d, s_log = l\<rparr> =
     (if has_intent intents ''itinerary'' \<and> places_truthy (d_places d)
      then \<lparr>s_data = d\<lparr>d_itinerary := Some (get_itinerary (groq_itinerary env) pn
                                              (the (d_places d)) days)\<rparr>,
            s_log = l @ [Call_get_itinerary pn days]\<rparr>
      else \<lparr>s_data = d, s_log = l\<rparr>)"
  by (auto simp: make_itinerary_def places_truthy_def split: option.splits)

lemma aggregate_result:
  "aggregate env pn g intents days r m \<lparr>s_data = empty_data, s_log = l\<rparr> =
     \<lparr>s_data =
        \<lparr>d_weather = weather_entry env g intents,
         d_places = places_entry env g intents r m,
         d_tips = (if has_intent intents ''tips'' \<and> weather_entry env g intents \<noteq> None
                      \<and> places_entry env g intents r m \<noteq> None
                   then Some (get_travel_tips (groq_tips env) pn (the (weather_entry env g intents))
                                (the (places_entry env g intents r m)))
                   else None),
         d_itinerary = (if has_intent intents ''itinerary'' \<and> places_entry env g intents r m \<noteq> None
                        then Some (get_itinerary (groq_itinerary env) pn
                                     (the (places_entry env g intents r m)) days)
                        else None)\<rparr>,
      s_log = l
        @ (if has_intent intents ''weather'' \<or> has_intent intents ''general''
           then [Call_get_weather (geo_lat g) (geo_lon g)] else [])
        @ (if has_intent intents ''places'' \<or> has_intent intents ''general''
              \<or> has_intent intents ''itinerary''
           then [Call_get_tourist_places (geo_lat g) (geo_lon g) r m] else [])
        @ (if has_intent intents ''tips'' \<and> weather_entry env g intents \<noteq> None
                \<and> places_entry env g intents r m \<noteq> None
           then [Call_get_travel_tips pn] else [])
        @ (if has_intent intents ''itinerary'' \<and> places_entry env g intents r m \<noteq> None
           then [Call_get_itinerary pn days] else [])\<rparr>"
  unfolding aggregate_def fetch_weather_result fetch_places_result
  by (simp add: make_tips_result make_itinerary_result weather_truthy_entry places_truthy_entry
      empty_data_def truthy_None)

text \<open>
  The rejected query: when the test \<^verbatim>\<open>'greeting' in intents\<close> does not raise, and the intents
  contain \<open>greeting\<close>, or there is no place name, or the query is marked invalid, the result
  is the fixed help bundle, the same for every search radius and number of places, and
  the only call made is the intent analysis.
\<close>

lemma rejected_query_help_bundle:
  assumes "py_contains (intents_of (understand_query env user_input)) ''greeting'' = Inr greeting"
    and "greeting \<or> \<not> json_truthy (place_of (understand_query env user_input))
         \<or> \<not> json_truthy (is_valid_of (understand_query env user_input))"
  shows "process_query env user_input search_radius max_places =
      (Inr \<lparr>b_success = False, b_is_greeting = Some True, b_message = Some HELP_MESSAGE,
            b_place = None, b_display_name = None, b_coordinates = None, b_intents = None,
            b_data = None, b_summary = None\<rparr>,
       [Call_understand_query user_input]) \<and>
     process_query env user_input search_radius' max_places' =
       process_query env user_input search_radius max_places"
  using assms by (simp add: process_query_rejected greeting_bundle_def)

lemma rejected_query_examples:
  "process_query example_env ''Hi '' 30000 8 = (Inr greeting_bundle, [Call_understand_query ''Hi ''])"
  "process_query example_env ''I want to travel'' 5000 20 =
     (Inr greeting_bundle, [Call_understand_query ''I want to travel''])"
proof -
  have fail: "groq_intent example_env ''Hi '' = Inl JSONDecodeError"
    by (rule example_groq_intent_fails) simp
  have hi: "understand_query example_env ''Hi '' =
      [(''place'', JNull), (''intents'', JArr [JStr ''greeting'']), (''days'', JNum 1),
       (''is_valid_query'', JBool False)]"
    by (simp add: understand_query_def fail fallback_analysis_def example_text text_eval)
  have travel: "understand_query example_env ''I want to travel'' =
      [(''place'', JNull), (''intents'', JArr [JStr ''general'']), (''days'', JNum 1),
       (''is_valid_query'', JBool False)]"
    by (simp add: query_eval)
  show "process_query example_env ''Hi '' 30000 8 =
      (Inr greeting_bundle, [Call_understand_query ''Hi ''])"
    by (rule process_query_rejected [where greeting = True])
      (simp_all add: hi intents_of_def dict_get_default_def)
  show "process_query example_env ''I want to travel'' 5000 20 =
      (Inr greeting_bundle, [Call_understand_query ''I want to travel''])"
    by (rule process_query_rejected [where greeting = False])
      (simp_all add: travel intents_of_def place_of_def dict_get_default_def)
qed

text \<open>
  C3, at an intent analysis whose intents are \<^verbatim>\<open>null\<close>: the key is present, so the
  default list is not used, the test \<^verbatim>\<open>'greeting' in intents\<close> raises \<^verbatim>\<open>TypeError\<close>, and
  \<^verbatim>\<open>process_query\<close> raises it after the intent analysis, whatever the place name and
  the validity mark are: also for an analysis that has no place and is marked invalid,
  where the help bundle is due.
\<close>

theorem null_intents_raise_type_error:
  assumes "intents_of (understand_query env user_input) = JNull"
  shows "process_query env user_input search_radius max_places =
     (Inl TypeError, [Call_understand_query user_input])"
  by (rule process_query_raises) (simp add: assms)

theorem null_intents_raise_type_error_witness:
  "understand_query example_env ''ok'' =
     [(''place'', JNull), (''intents'', JNull), (''days'', JNum 1),
      (''is_valid_query'', JBool False)] \<and>
   \<not> json_truthy (place_of (understand_query example_env ''ok'')) \<and>
   \<not> json_truthy (is_valid_of (understand_query example_env ''ok'')) \<and>
   process_query example_env ''ok'' 30000 8 = (Inl TypeError, [Call_understand_query ''ok''])"
proof -
  have q: "understand_query example_env ''ok'' =
      [(''place'', JNull), (''intents'', JNull), (''days'', JNum 1),
       (''is_valid_query'', JBool False)]"
    by (simp add: query_eval)
  have "intents_of (understand_query example_env ''ok'') = JNull"
    by (simp add: q intents_of_def dict_get_default_def)
  from null_intents_raise_type_error [OF this, of 30000 8] q show ?thesis
    by (simp add: place_of_def is_valid_of_def dict_get_default_def)
qed

text \<open>
  C6. When the query has a valid place name and the geocoding client returns \<open>None\<close>,
  the result has \<open>success = False\<close> and \<open>is_greeting = False\<close>. Its message starts
  with the sentence that quotes the place name. If the spelling suggestion is not empty
  and differs from the place name, the message goes on with the clause
  \<^verbatim>\<open>Did you mean **suggestion**?\<close>; if the suggestion equals the place name, as it does
  when the suggestion call fails, the message goes on with the generic guidance instead.
\<close>

theorem not_found_message:
  assumes "py_contains (intents_of (understand_query env user_input)) ''greeting'' = Inr False"
    and "place_of (understand_query env user_input) = JStr place_name" and "place_name \<noteq> []"
    and "json_truthy (is_valid_of (understand_query env user_input))"
    and "get_coordinates (nominatim env) (JStr place_name) = None"
    and "(Inr result, calls) = process_query env user_input search_radius max_places"
  shows "b_success result = False \<and> b_is_greeting result = Some False \<and>
     (\<exists>suggestion rest.
        get_spelling_suggestions env (JStr place_name) = JStr suggestion \<and>
        b_message result =
          Some (''I couldn't find a place called '' @ [CHR 0x27] @ place_name @ [CHR 0x27]
                @ ''.'' @ rest) \<and>
        (suggestion \<noteq> [] \<and> suggestion \<noteq> place_name \<longrightarrow>
           rest = ''\<newline>\<newline>''
             @ [CHR 0xC3, CHR 0xB0, CHR 0xC5, CHR 0xB8, CHR 0xE2, CHR 0x80, CHR 0x99, CHR 0xC2, CHR 0xA1]
             @ '' Did you mean **''
             @ suggestion @ ''**? Try searching for that instead!'') \<and>
        (suggestion = place_name \<longrightarrow>
           rest = ''\<newline>\<newline>Please check the spelling or try a different ''
             @ ''location.\<newline>\<newline>Tip: Try using well-known city names like ''
             @ '''London', 'New York', or 'Tokyo'.'') \<and>
        (\<forall>e. groq_spelling env (JStr place_name) = Inl e \<longrightarrow> suggestion = place_name))"
proof -
  have truthy: "json_truthy (place_of (understand_query env user_input))"
    using assms(2,3) by simp
  have "process_query env user_input search_radius max_places =
      (Inr (not_found_bundle env (JStr place_name)
              (get_spelling_suggestions env (JStr place_name))),
       [Call_understand_query user_input, Call_get_coordinates (JStr place_name),
        Call_get_spelling_suggestions (JStr place_name)])"
    using process_query_not_found [OF assms(1) truthy assms(4), of search_radius max_places]
      assms(2,5)
    by simp
  with assms(6) have result:
    "result = not_found_bundle env (JStr place_name)
       (get_spelling_suggestions env (JStr place_name))"
    by simp
  obtain suggestion where s: "get_spelling_suggestions env (JStr place_name) = JStr suggestion"
    and fails: "\<forall>e. groq_spelling env (JStr place_name) = Inl e \<longrightarrow> suggestion = place_name"
    by (cases "groq_spelling env (JStr place_name)") (auto simp: get_spelling_suggestions_def)
  show ?thesis
    unfolding result s using fails
    by (auto simp: not_found_bundle_def error_msg_def format_value_def)
qed

theorem not_found_message_witness:
  "get_coordinates (nominatim example_env) (JStr ''bengalururu'') = None \<and>
   get_spelling_suggestions example_env (JStr ''bengalururu'') = JStr ''Bangalore'' \<and>
   map_sum id b_message (fst (process_query example_env ''bengalururu trip'' 30000 8)) =
     Inr (Some (''I couldn't find a place called 'bengalururu'.'' @ ''\<newline>\<newline>''
             @ [CHR 0xC3, CHR 0xB0, CHR 0xC5, CHR 0xB8, CHR 0xE2, CHR 0x80, CHR 0x99, CHR 0xC2, CHR 0xA1]
             @ '' Did you mean **''
             @ ''Bangalore**? Try searching for that instead!'')) \<and>
   get_spelling_suggestions example_env (JStr ''Atlantis'') = JStr ''Atlantis'' \<and>
   map_sum id b_message (fst (process_query example_env ''Weather in Atlantis'' 30000 8)) =
     Inr (Some (''I couldn't find a place called 'Atlantis'.'' @
           ''\<newline>\<newline>Please check the spelling or try a different ''
             @ ''location.\<newline>\<newline>Tip: Try using well-known city names like ''
             @ '''London', 'New York', or 'Tokyo'.''))"
proof -
  have fail: "groq_intent example_env ''bengalururu trip'' = Inl JSONDecodeError"
    by (rule example_groq_intent_fails) simp
  have q1: "understand_query example_env ''bengalururu trip'' =
      [(''place'', JStr ''bengalururu''), (''intents'', JArr [JStr ''weather'', JStr ''places'']),
       (''days'', JNum 1), (''is_valid_query'', JBool True)]"
    by (simp add: understand_query_def fail fallback_analysis_def extract_place_name_def
        example_text text_eval)
  have q2: "understand_query example_env ''Weather in Atlantis'' =
      [(''place'', JStr ''Atlantis''), (''intents'', JArr [JStr ''weather''])]"
    by (simp add: query_eval)
  have g1: "get_coordinates (nominatim example_env) (JStr ''bengalururu'') = None"
    and g2: "get_coordinates (nominatim example_env) (JStr ''Atlantis'') = None"
    by (simp_all add: get_coordinates_def get_coordinates_try_def example_env_def)
  have s1: "get_spelling_suggestions example_env (JStr ''bengalururu'') = JStr ''Bangalore''"
    and s2: "get_spelling_suggestions example_env (JStr ''Atlantis'') = JStr ''Atlantis''"
    by (simp_all add: get_spelling_suggestions_def example_env_def text_eval)
  have r1: "\<exists>result calls. process_query example_env ''bengalururu trip'' 30000 8 = (Inr result, calls)"
    and r2: "\<exists>result calls. process_query example_env ''Weather in Atlantis'' 30000 8 = (Inr result, calls)"
    by (simp_all add: process_query_def q1 q2 g1 g2 intents_of_def place_of_def is_valid_of_def
        dict_get_default_def Let_def)
  from r1 obtain result1 calls1
    where run1: "(Inr result1, calls1) = process_query example_env ''bengalururu trip'' 30000 8"
    by auto
  from r2 obtain result2 calls2
    where run2: "(Inr result2, calls2) = process_query example_env ''Weather in Atlantis'' 30000 8"
    by auto
  have m1: "b_message result1 =
      Some (''I couldn't find a place called 'bengalururu'.'' @ ''\<newline>\<newline>''
             @ [CHR 0xC3, CHR 0xB0, CHR 0xC5, CHR 0xB8, CHR 0xE2, CHR 0x80, CHR 0x99, CHR 0xC2, CHR 0xA1]
             @ '' Did you mean **''
             @ ''Bangalore**? Try searching for that instead!'')"
    using not_found_message [OF _ _ _ _ g1 run1] s1
    by (simp add: q1 intents_of_def place_of_def is_valid_of_def dict_get_default_def)
  have m2: "b_message result2 =
      Some (''I couldn't find a place called 'Atlantis'.'' @
           ''\<newline>\<newline>Please check the spelling or try a different ''
             @ ''location.\<newline>\<newline>Tip: Try using well-known city names like ''
             @ '''London', 'New York', or 'Tokyo'.'')"
    using not_found_message [OF _ _ _ _ g2 run2] s2
    by (simp add: q2 intents_of_def place_of_def is_valid_of_def dict_get_default_def)
  show ?thesis
    using g1 s1 s2 m1 m2 run1 [symmetric] run2 [symmetric] by simp
qed

text \<open>
  C2. For a query that is not rejected and whose place is geocoded: the weather client is
  called exactly when the intents contain \<open>weather\<close> or \<open>general\<close>; the places client
  exactly when they contain \<open>places\<close>, \<open>general\<close> or \<open>itinerary\<close>; tips are generated
  exactly when the intents contain \<open>tips\<close> and the weather and places entries of the data
  mapping are both present and not empty; an itinerary exactly when the intents contain
  \<open>itinerary\<close> and the places entry is present and not empty. The weather entry is the
  fetched value if it was asked for and is not empty, and is absent otherwise, likewise the
  places entry; the result is a success in every case. For a list of texts,
  \<^const>\<open>has_intent\<close> is membership (lemma \<open>has_intent_list\<close>).
\<close>

theorem process_query_aggregation:
  assumes no_greeting:
      "py_contains (intents_of (understand_query env user_input)) ''greeting'' = Inr False"
    and place: "json_truthy (place_of (understand_query env user_input))"
    and valid: "json_truthy (is_valid_of (understand_query env user_input))"
    and geo: "get_coordinates (nominatim env) (place_of (understand_query env user_input)) = Some g"
    and intents: "intents = intents_of (understand_query env user_input)"
    and w: "w = get_weather (open_meteo env) (geo_lat g) (geo_lon g) DEFAULT_FORECAST_DAYS"
    and ps: "ps = get_tourist_places (overpass env) (geo_lat g) (geo_lon g) search_radius max_places"
    and run: "(Inr result, calls) = process_query env user_input search_radius max_places"
  shows "b_success result \<and> (\<exists>d. b_data result = Some d \<and>
     ((\<exists>la lo. Call_get_weather la lo \<in> set calls) \<longleftrightarrow>
        has_intent intents ''weather'' \<or> has_intent intents ''general'') \<and>
     ((\<exists>la lo r m. Call_get_tourist_places la lo r m \<in> set calls) \<longleftrightarrow>
        has_intent intents ''places'' \<or> has_intent intents ''general''
        \<or> has_intent intents ''itinerary'') \<and>
     ((\<exists>p. Call_get_travel_tips p \<in> set calls) \<longleftrightarrow> d_tips d \<noteq> None) \<and>
     (d_tips d \<noteq> None \<longleftrightarrow>
        has_intent intents ''tips'' \<and> weather_truthy (d_weather d) \<and> places_truthy (d_places d)) \<and>
     ((\<exists>p n. Call_get_itinerary p n \<in> set calls) \<longleftrightarrow> d_itinerary d \<noteq> None) \<and>
     (d_itinerary d \<noteq> None \<longleftrightarrow> has_intent intents ''itinerary'' \<and> places_truthy (d_places d)) \<and>
     d_weather d =
       (if (has_intent intents ''weather'' \<or> has_intent intents ''general'') \<and> weather_truthy w
        then w else None) \<and>
     d_places d =
       (if (has_intent intents ''places'' \<or> has_intent intents ''general''
            \<or> has_intent intents ''itinerary'') \<and> ps \<noteq> []
        then Some ps else None))"
proof -
  let ?pn = "place_of (understand_query env user_input)"
  let ?st = "aggregate env ?pn g intents (days_of (understand_query env user_input))
      search_radius max_places
      \<lparr>s_data = empty_data, s_log = [Call_understand_query user_input, Call_get_coordinates ?pn]\<rparr>"
  from process_query_resolved [OF no_greeting place valid geo, of search_radius max_places]
  obtain summary where pq: "process_query env user_input search_radius max_places =
     (Inr \<lparr>b_success = True, b_is_greeting = None, b_message = None, b_place = Some ?pn,
       b_display_name = Some (geo_display_name g),
       b_coordinates = Some (geo_lat g, geo_lon g),
       b_intents = Some intents, b_data = Some (s_data ?st), b_summary = Some summary\<rparr>,
      s_log ?st @ [Call_generate_summary user_input])"
    unfolding intents by blast
  have res: "b_success result" "b_data result = Some (s_data ?st)"
    and calls: "calls = s_log ?st @ [Call_generate_summary user_input]"
    using run unfolding pq by auto
  have we: "weather_entry env g intents =
      (if (has_intent intents ''weather'' \<or> has_intent intents ''general'') \<and> weather_truthy w
       then w else None)"
    by (simp add: weather_entry_def w)
  have pe: "places_entry env g intents search_radius max_places =
      (if (has_intent intents ''places'' \<or> has_intent intents ''general''
           \<or> has_intent intents ''itinerary'') \<and> ps \<noteq> []
       then Some ps else None)"
    by (simp add: places_entry_def ps)
  have 1: "(\<exists>la lo. Call_get_weather la lo \<in> set calls) \<longleftrightarrow>
      has_intent intents ''weather'' \<or> has_intent intents ''general''"
    unfolding calls aggregate_result by auto
  have 2: "(\<exists>la lo r m. Call_get_tourist_places la lo r m \<in> set calls) \<longleftrightarrow>
      has_intent intents ''places'' \<or> has_intent intents ''general''
      \<or> has_intent intents ''itinerary''"
    unfolding calls aggregate_result by auto
  have 3: "(\<exists>p. Call_get_travel_tips p \<in> set calls) \<longleftrightarrow> d_tips (s_data ?st) \<noteq> None"
    unfolding calls aggregate_result by auto
  have 4: "d_tips (s_data ?st) \<noteq> None \<longleftrightarrow>
      has_intent intents ''tips'' \<and> weather_truthy (d_weather (s_data ?st))
        \<and> places_truthy (d_places (s_data ?st))"
    unfolding aggregate_result by (simp add: weather_truthy_entry places_truthy_entry)
  have 5: "(\<exists>p n. Call_get_itinerary p n \<in> set calls) \<longleftrightarrow> d_itinerary (s_data ?st) \<noteq> None"
    unfolding calls aggregate_result by auto
  have 6: "d_itinerary (s_data ?st) \<noteq> None \<longleftrightarrow>
      has_intent intents ''itinerary'' \<and> places_truthy (d_places (s_data ?st))"
    unfolding aggregate_result by (simp add: places_truthy_entry)
  have 7: "d_weather (s_data ?st) =
      (if (has_intent intents ''weather'' \<or> has_intent intents ''general'') \<and> weather_truthy w
       then w else None)"
    unfolding aggregate_result using we by simp
  have 8: "d_places (s_data ?st) =
      (if (has_intent intents ''places'' \<or> has_intent intents ''general''
           \<or> has_intent intents ''itinerary'') \<and> ps \<noteq> []
       then Some ps else None)"
    unfolding aggregate_result using pe by simp
  from res 1 2 3 4 5 6 7 8 show ?thesis by blast
qed

theorem process_query_aggregation_witness:
  "(get_coordinates (nominatim example_env) (JStr ''Paris'') =
      Some \<lparr>geo_lat = 48.8566, geo_lon = 2.3522, geo_display_name = ''Paris, France''\<rparr> \<and>
    (\<exists>result. process_query example_env ''What's the weather in Paris?'' 30000 8 =
       (Inr result,
        [Call_understand_query ''What's the weather in Paris?'',
         Call_get_coordinates (JStr ''Paris''), Call_get_weather 48.8566 2.3522,
         Call_generate_summary ''What's the weather in Paris?'']) \<and>
       b_data result =
         Some \<lparr>d_weather = Some sunny, d_places = None, d_tips = None, d_itinerary = None\<rparr>)) \<and>
   (\<exists>result calls d.
      process_query example_env ''Plan a 3-day trip to Rome'' 30000 2 = (Inr result, calls) \<and>
      b_data result = Some d \<and>
      d_weather d = None \<and> d_tips d = None \<and> d_itinerary d \<noteq> None \<and>
      map_option (map p_name) (d_places d) = Some [''Louvre'', ''Jardin des Tuileries''] \<and>
      \<not> (\<exists>la lo. Call_get_weather la lo \<in> set calls) \<and>
      (\<exists>p n. Call_get_itinerary p n \<in> set calls))"
proof -
  have paris: "get_coordinates (nominatim example_env) (JStr ''Paris'') =
       Some \<lparr>geo_lat = 48.8566, geo_lon = 2.3522, geo_display_name = ''Paris, France''\<rparr> \<and>
     (\<exists>result. process_query example_env ''What's the weather in Paris?'' 30000 8 =
       (Inr result,
        [Call_understand_query ''What's the weather in Paris?'',
         Call_get_coordinates (JStr ''Paris''), Call_get_weather 48.8566 2.3522,
         Call_generate_summary ''What's the weather in Paris?'']) \<and>
       b_data result =
         Some \<lparr>d_weather = Some sunny, d_places = None, d_tips = None, d_itinerary = None\<rparr>)"
  proof -
    let ?q = "''What's the weather in Paris?''"
    let ?X = "process_query example_env ?q 30000 8"
    let ?G = "\<lparr>geo_lat = 48.8566, geo_lon = 2.3522, geo_display_name = ''Paris, France''\<rparr>"
    have q: "understand_query example_env ?q =
        [(''place'', JStr ''Paris''), (''intents'', JArr [JStr ''weather'']),
         (''days'', JNum 1), (''is_valid_query'', JBool True)]"
      by (simp add: query_eval)
    have g: "get_coordinates (nominatim example_env) (JStr ''Paris'') = Some ?G"
      by (simp add: get_coordinates_def get_coordinates_try_def example_env_def
          paris_candidates_def is_preferred_def opt_in_def PREFERRED_TYPES_def geo_result_def)
    have run: "?X =
        (Inr \<lparr>b_success = True, b_is_greeting = None, b_message = None,
          b_place = Some (JStr ''Paris''),
          b_display_name = Some ''Paris, France'', b_coordinates = Some (48.8566, 2.3522),
          b_intents = Some (JArr [JStr ''weather'']),
          b_data = Some \<lparr>d_weather = Some sunny, d_places = None, d_tips = None,
                         d_itinerary = None\<rparr>,
          b_summary = Some (generate_summary example_env ?q (JStr ''Paris'')
            \<lparr>b_success = True, b_is_greeting = None, b_message = None,
             b_place = Some (JStr ''Paris''),
             b_display_name = Some ''Paris, France'', b_coordinates = Some (48.8566, 2.3522),
             b_intents = Some (JArr [JStr ''weather'']),
             b_data = Some \<lparr>d_weather = Some sunny, d_places = None, d_tips = None,
                            d_itinerary = None\<rparr>,
             b_summary = None\<rparr> (JArr [JStr ''weather'']))\<rparr>,
         [Call_understand_query ?q, Call_get_coordinates (JStr ''Paris''),
          Call_get_weather 48.8566 2.3522, Call_generate_summary ?q])"
      by (simp add: process_query_def q g intents_of_def days_of_def is_valid_of_def place_of_def
          dict_get_default_def has_intent_def aggregate_def fetch_weather_def fetch_places_def
          make_tips_def make_itinerary_def empty_data_def Let_def get_weather_def
          get_weather_try_def example_open_meteo weather_truthy_def sunny_def)
    have h1: "py_contains (intents_of (understand_query example_env ?q)) ''greeting'' = Inr False"
      and h2: "json_truthy (place_of (understand_query example_env ?q))"
      and h3: "json_truthy (is_valid_of (understand_query example_env ?q))"
      and h4: "get_coordinates (nominatim example_env) (place_of (understand_query example_env ?q))
                 = Some ?G"
      by (simp_all add: q g intents_of_def place_of_def is_valid_of_def dict_get_default_def)
    from run obtain result where r: "?X =
        (Inr result,
         [Call_understand_query ?q, Call_get_coordinates (JStr ''Paris''),
          Call_get_weather 48.8566 2.3522, Call_generate_summary ?q])"
      and d: "b_data result =
         Some \<lparr>d_weather = Some sunny, d_places = None, d_tips = None, d_itinerary = None\<rparr>"
      by simp
    from process_query_aggregation [OF h1 h2 h3 h4 refl refl refl r [symmetric]]
    have "b_success result" by blast
    with g r d show ?thesis by blast
  qed
  have q: "understand_query example_env ''Plan a 3-day trip to Rome'' =
      [(''place'', JStr ''Rome''),
       (''intents'', JArr [JStr ''places'', JStr ''itinerary'', JStr ''tips'']),
       (''days'', JNum 3), (''is_valid_query'', JBool True)]"
    by (simp add: query_eval)
  have g: "get_coordinates (nominatim example_env) (JStr ''Rome'') =
      Some \<lparr>geo_lat = 41.9, geo_lon = 12.5, geo_display_name = ''Roma, Italia''\<rparr>"
    by (simp add: get_coordinates_def get_coordinates_try_def example_env_def
        rome_candidates_def is_preferred_def opt_in_def PREFERRED_TYPES_def geo_result_def)
  have ps: "\<And>lat lon. map p_name (get_tourist_places (overpass example_env) lat lon 30000 2) =
      [''Louvre'', ''Jardin des Tuileries'']"
    by (simp add: places_eval)
  have pne: "\<And>lat lon. get_tourist_places (overpass example_env) lat lon 30000 2 \<noteq> []"
  proof -
    fix lat lon
    show "get_tourist_places (overpass example_env) lat lon 30000 2 \<noteq> []"
      using ps [of lat lon] by auto
  qed
  have rome: "\<exists>result calls d.
      process_query example_env ''Plan a 3-day trip to Rome'' 30000 2 = (Inr result, calls) \<and>
      b_data result = Some d \<and>
      d_weather d = None \<and> d_tips d = None \<and> d_itinerary d \<noteq> None \<and>
      map_option (map p_name) (d_places d) = Some [''Louvre'', ''Jardin des Tuileries''] \<and>
      \<not> (\<exists>la lo. Call_get_weather la lo \<in> set calls) \<and>
      (\<exists>p n. Call_get_itinerary p n \<in> set calls)"
  proof -
    let ?q = "''Plan a 3-day trip to Rome''"
    let ?X = "process_query example_env ?q 30000 2"
    let ?G = "\<lparr>geo_lat = 41.9, geo_lon = 12.5, geo_display_name = ''Roma, Italia''\<rparr>"
    let ?I = "JArr [JStr ''places'', JStr ''itinerary'', JStr ''tips'']"
    let ?PS = "get_tourist_places (overpass example_env) (geo_lat ?G) (geo_lon ?G) 30000 2"
    have h1: "py_contains (intents_of (understand_query example_env ?q)) ''greeting'' = Inr False"
      and h2: "json_truthy (place_of (understand_query example_env ?q))"
      and h3: "json_truthy (is_valid_of (understand_query example_env ?q))"
      and h4: "get_coordinates (nominatim example_env) (place_of (understand_query example_env ?q))
                 = Some ?G"
      and h5: "?I = intents_of (understand_query example_env ?q)"
      by (simp_all add: q g intents_of_def place_of_def is_valid_of_def dict_get_default_def)
    from process_query_resolved [OF h1 h2 h3 h4, of 30000 2]
    obtain result calls where r: "(Inr result, calls) = ?X"
      by (metis surj_pair)
    have hi: "\<not> has_intent ?I ''weather''" "\<not> has_intent ?I ''general''"
      "has_intent ?I ''places''" "has_intent ?I ''itinerary''" "has_intent ?I ''tips''"
      by (simp_all add: has_intent_def)
    from process_query_aggregation [OF h1 h2 h3 h4 h5 refl refl r]
    obtain d where d: "b_data result = Some d"
      and weather_call: "(\<exists>la lo. Call_get_weather la lo \<in> set calls) \<longleftrightarrow>
          has_intent ?I ''weather'' \<or> has_intent ?I ''general''"
      and tips: "d_tips d \<noteq> None \<longleftrightarrow>
          has_intent ?I ''tips'' \<and> weather_truthy (d_weather d) \<and> places_truthy (d_places d)"
      and itinerary_call: "(\<exists>p n. Call_get_itinerary p n \<in> set calls) \<longleftrightarrow> d_itinerary d \<noteq> None"
      and itinerary: "d_itinerary d \<noteq> None \<longleftrightarrow>
          has_intent ?I ''itinerary'' \<and> places_truthy (d_places d)"
      and weather: "d_weather d =
          (if (has_intent ?I ''weather'' \<or> has_intent ?I ''general'')
              \<and> weather_truthy (get_weather (open_meteo example_env) (geo_lat ?G) (geo_lon ?G)
                    DEFAULT_FORECAST_DAYS)
           then get_weather (open_meteo example_env) (geo_lat ?G) (geo_lon ?G) DEFAULT_FORECAST_DAYS
           else None)"
      and places: "d_places d =
          (if (has_intent ?I ''places'' \<or> has_intent ?I ''general'' \<or> has_intent ?I ''itinerary'')
              \<and> ?PS \<noteq> []
           then Some ?PS else None)"
      by blast
    have w: "d_weather d = None" using weather hi by simp
    have p: "d_places d = Some ?PS" using places hi pne [of "geo_lat ?G" "geo_lon ?G"] by simp
    have t: "d_tips d = None" using tips w by (simp add: weather_truthy_def)
    have i: "d_itinerary d \<noteq> None"
      using itinerary hi p pne [of "geo_lat ?G" "geo_lon ?G"] by (simp add: places_truthy_def)
    have n: "map_option (map p_name) (d_places d) = Some [''Louvre'', ''Jardin des Tuileries'']"
      using p ps [of "geo_lat ?G" "geo_lon ?G"] by simp
    have c1: "\<not> (\<exists>la lo. Call_get_weather la lo \<in> set calls)"
      using weather_call hi by simp
    have c2: "\<exists>p n. Call_get_itinerary p n \<in> set calls"
      using itinerary_call i by simp
    have "process_query example_env ''Plan a 3-day trip to Rome'' 30000 2 = (Inr result, calls) \<and>
      b_data result = Some d \<and>
      d_weather d = None \<and> d_tips d = None \<and> d_itinerary d \<noteq> None \<and>
      map_option (map p_name) (d_places d) = Some [''Louvre'', ''Jardin des Tuileries''] \<and>
      \<not> (\<exists>la lo. Call_get_weather la lo \<in> set calls) \<and>
      (\<exists>p n. Call_get_itinerary p n \<in> set calls)"
      using r [symmetric] d w t i n c1 c2 by (intro conjI)
    then show ?thesis
      by (intro exI)
  qed
  from paris rome show ?thesis by blast
qed

subsection \<open>The fallback of the intent analysis\<close>

lemma match_patterns_None:
  "match_patterns env ps s = None \<longleftrightarrow> (\<forall>p \<in> set ps. re_search env p s = None)"
  by (induction ps) (auto split: option.splits)

lemma match_patterns_find:
  "List.find (\<lambda>p. re_search env p s \<noteq> None) ps = Some p \<Longrightarrow> re_search env p s = Some group1 \<Longrightarrow>
   match_patterns env ps s = Some (str_strip env group1)"
  by (induction ps) (auto split: option.splits if_splits)

lemma understand_query_fallback:
  "groq_intent env user_input = Inl e \<Longrightarrow>
   understand_query env user_input = fallback_analysis env user_input"
  by (simp add: understand_query_def split: exn.splits)

text \<open>
  C9, as stated, at the query \<open>paris\<close>, which is no greeting, matches no pattern and has
  no capitalized word: the two strategies of the claim give the empty place name and so
  an invalid query, but the fallback yields the place \<open>paris\<close> and a valid query.
\<close>

theorem fallback_place_counterexample:
  "groq_intent example_env ''paris'' = Inl JSONDecodeError \<and>
   str_strip example_env (str_lower example_env ''paris'') \<notin> set GREETING_WORDS \<and>
   place_by_patterns_or_capitals example_env ''paris'' = [] \<and>
   understand_query example_env ''paris'' =
     [(''place'', JStr ''paris''), (''intents'', JArr [JStr ''weather'', JStr ''places'']),
      (''days'', JNum 1), (''is_valid_query'', JBool True)]"
proof -
  have fail: "groq_intent example_env ''paris'' = Inl JSONDecodeError"
    by (rule example_groq_intent_fails) simp
  show ?thesis
    by (simp add: fail place_by_patterns_or_capitals_def understand_query_def
        fallback_analysis_def extract_place_name_def example_text text_eval)
qed

text \<open>
  C9, amended. When the reply of the intent prompt cannot be used, the query is a greeting
  exactly when its lowercased, stripped text is one of hi, hello, hey, thanks, thank you,
  bye, goodbye. A greeting yields no place, the intents \<open>[greeting]\<close> and an invalid
  query. Every other query yields the intents \<open>[weather, places]\<close>, one day, and a place
  that is the stripped capture of the first pattern that matches, or else the capitalized
  words that are no stop words joined by a space if there is one, or else the query text
  itself; the query is valid exactly when that place is not empty.
\<close>

theorem fallback_analysis_classification:
  assumes "groq_intent env user_input = Inl e"
  shows
    "(str_strip env (str_lower env user_input)
        \<in> {''hi'', ''hello'', ''hey'', ''thanks'', ''thank you'', ''bye'', ''goodbye''} \<longrightarrow>
      understand_query env user_input =
        [(''place'', JNull), (''intents'', JArr [JStr ''greeting'']), (''days'', JNum 1),
         (''is_valid_query'', JBool False)]) \<and>
     (str_strip env (str_lower env user_input)
        \<notin> {''hi'', ''hello'', ''hey'', ''thanks'', ''thank you'', ''bye'', ''goodbye''} \<longrightarrow>
      (\<exists>place.
         understand_query env user_input =
           [(''place'', JStr place), (''intents'', JArr [JStr ''weather'', JStr ''places'']),
            (''days'', JNum 1), (''is_valid_query'', JBool (place \<noteq> []))] \<and>
         (\<forall>pattern group1.
            List.find (\<lambda>p. re_search env p user_input \<noteq> None) patterns = Some pattern \<and>
            re_search env pattern user_input = Some group1 \<longrightarrow> place = str_strip env group1) \<and>
         ((\<forall>p \<in> set patterns. re_search env p user_input = None) \<and>
            capitalized_words env user_input \<noteq> [] \<longrightarrow>
            place = py_join '' '' (capitalized_words env user_input)) \<and>
         ((\<forall>p \<in> set patterns. re_search env p user_input = None) \<and>
            capitalized_words env user_input = [] \<longrightarrow> place = user_input)))"
proof -
  have greetings:
    "set GREETING_WORDS = {''hi'', ''hello'', ''hey'', ''thanks'', ''thank you'', ''bye'', ''goodbye''}"
    by (simp add: GREETING_WORDS_def)
  have place:
    "(\<forall>pattern group1.
        List.find (\<lambda>p. re_search env p user_input \<noteq> None) patterns = Some pattern \<and>
        re_search env pattern user_input = Some group1 \<longrightarrow>
        extract_place_name env user_input = str_strip env group1) \<and>
     ((\<forall>p \<in> set patterns. re_search env p user_input = None) \<and>
        capitalized_words env user_input \<noteq> [] \<longrightarrow>
        extract_place_name env user_input = py_join '' '' (capitalized_words env user_input)) \<and>
     ((\<forall>p \<in> set patterns. re_search env p user_input = None) \<and>
        capitalized_words env user_input = [] \<longrightarrow> extract_place_name env user_input = user_input)"
    using match_patterns_None [of env patterns user_input]
    by (auto simp: extract_place_name_def match_patterns_find split: option.splits)
  show ?thesis
  proof (intro conjI impI)
    assume "str_strip env (str_lower env user_input)
        \<in> {''hi'', ''hello'', ''hey'', ''thanks'', ''thank you'', ''bye'', ''goodbye''}"
    then show "understand_query env user_input =
        [(''place'', JNull), (''intents'', JArr [JStr ''greeting'']), (''days'', JNum 1),
         (''is_valid_query'', JBool False)]"
      unfolding understand_query_fallback [OF assms] greetings [symmetric]
      by (simp add: fallback_analysis_def Let_def)
  next
    assume "str_strip env (str_lower env user_input)
        \<notin> {''hi'', ''hello'', ''hey'', ''thanks'', ''thank you'', ''bye'', ''goodbye''}"
    then have "understand_query env user_input =
        [(''place'', JStr (extract_place_name env user_input)),
         (''intents'', JArr [JStr ''weather'', JStr ''places'']), (''days'', JNum 1),
         (''is_valid_query'', JBool (extract_place_name env user_input \<noteq> []))]"
      unfolding understand_query_fallback [OF assms] greetings [symmetric]
      by (simp add: fallback_analysis_def Let_def)
    with place show "\<exists>place.
         understand_query env user_input =
           [(''place'', JStr place), (''intents'', JArr [JStr ''weather'', JStr ''places'']),
            (''days'', JNum 1), (''is_valid_query'', JBool (place \<noteq> []))] \<and>
         (\<forall>pattern group1.
            List.find (\<lambda>p. re_search env p user_input \<noteq> None) patterns = Some pattern \<and>
            re_search env pattern user_input = Some group1 \<longrightarrow> place = str_strip env group1) \<and>
         ((\<forall>p \<in> set patterns. re_search env p user_input = None) \<and>
            capitalized_words env user_input \<noteq> [] \<longrightarrow>
            place = py_join '' '' (capitalized_words env user_input)) \<and>
         ((\<forall>p \<in> set patterns. re_search env p user_input = None) \<and>
            capitalized_words env user_input = [] \<longrightarrow> place = user_input)"
      by blast
  qed
qed

theorem fallback_analysis_classification_witness:
  "understand_query example_env '' Thank YOU '' =
     [(''place'', JNull), (''intents'', JArr [JStr ''greeting'']), (''days'', JNum 1),
      (''is_valid_query'', JBool False)] \<and>
   understand_query example_env ''bengalururu trip'' =
     [(''place'', JStr ''bengalururu''), (''intents'', JArr [JStr ''weather'', JStr ''places'']),
      (''days'', JNum 1), (''is_valid_query'', JBool True)] \<and>
   understand_query example_env ''take me to New York'' =
     [(''place'', JStr ''New York''), (''intents'', JArr [JStr ''weather'', JStr ''places'']),
      (''days'', JNum 1), (''is_valid_query'', JBool True)] \<and>
   understand_query example_env [] =
     [(''place'', JStr []), (''intents'', JArr [JStr ''weather'', JStr ''places'']),
      (''days'', JNum 1), (''is_valid_query'', JBool False)]"
proof -
  have fail: "\<And>q. q \<in> {'' Thank YOU '', ''bengalururu trip'', ''take me to New York'', []} \<Longrightarrow>
      groq_intent example_env q = Inl JSONDecodeError"
    by (rule example_groq_intent_fails) auto
  have g: "str_strip example_env (str_lower example_env '' Thank YOU '') = ''thank you''"
    and n1: "str_strip example_env (str_lower example_env ''bengalururu trip'') = ''bengalururu trip''"
    and n2: "str_strip example_env (str_lower example_env ''take me to New York'')
               = ''take me to new york''"
    and n3: "str_strip example_env (str_lower example_env []) = []"
    by (simp_all add: example_text text_eval)
  have search: "\<And>p s. re_search example_env p s =
      (if p = patterns ! 3 \<and> s = ''bengalururu trip'' then Some ''bengalururu '' else None)"
    by (simp add: example_text)
  have none: "\<And>s. s \<noteq> ''bengalururu trip'' \<Longrightarrow>
      \<forall>p \<in> set patterns. re_search example_env p s = None"
    by (simp add: search)
  have f1: "List.find (\<lambda>p. re_search example_env p ''bengalururu trip'' \<noteq> None) patterns
      = Some (patterns ! 3)"
    and m1: "re_search example_env (patterns ! 3) ''bengalururu trip'' = Some ''bengalururu ''"
    by (simp_all add: search patterns_def)
  have s1: "str_strip example_env ''bengalururu '' = ''bengalururu''"
    by (simp add: example_text text_eval)
  have c2: "capitalized_words example_env ''take me to New York'' = [''New'', ''York'']"
    and c3: "capitalized_words example_env [] = []"
    by (simp_all add: example_text text_eval)
  have 1: "understand_query example_env '' Thank YOU '' =
      [(''place'', JNull), (''intents'', JArr [JStr ''greeting'']), (''days'', JNum 1),
       (''is_valid_query'', JBool False)]"
    using fallback_analysis_classification [OF fail, of "'' Thank YOU ''"] by (simp add: g)
  from fallback_analysis_classification [OF fail, of "''bengalururu trip''"]
  obtain place2 where "understand_query example_env ''bengalururu trip'' =
      [(''place'', JStr place2), (''intents'', JArr [JStr ''weather'', JStr ''places'']),
       (''days'', JNum 1), (''is_valid_query'', JBool (place2 \<noteq> []))]"
    and "place2 = str_strip example_env ''bengalururu ''"
    using f1 m1 by (auto simp: n1)
  then have 2: "understand_query example_env ''bengalururu trip'' =
      [(''place'', JStr ''bengalururu''), (''intents'', JArr [JStr ''weather'', JStr ''places'']),
       (''days'', JNum 1), (''is_valid_query'', JBool True)]"
    by (simp add: s1)
  from fallback_analysis_classification [OF fail, of "''take me to New York''"]
  obtain place3 where "understand_query example_env ''take me to New York'' =
      [(''place'', JStr place3), (''intents'', JArr [JStr ''weather'', JStr ''places'']),
       (''days'', JNum 1), (''is_valid_query'', JBool (place3 \<noteq> []))]"
    and "place3 = py_join '' '' (capitalized_words example_env ''take me to New York'')"
    using none [of "''take me to New York''"] by (auto simp: n2 c2)
  then have 3: "understand_query example_env ''take me to New York'' =
      [(''place'', JStr ''New York''), (''intents'', JArr [JStr ''weather'', JStr ''places'']),
       (''days'', JNum 1), (''is_valid_query'', JBool True)]"
    by (simp add: c2)
  from fallback_analysis_classification [OF fail, of "[]"]
  obtain place4 where "understand_query example_env [] =
      [(''place'', JStr place4), (''intents'', JArr [JStr ''weather'', JStr ''places'']),
       (''days'', JNum 1), (''is_valid_query'', JBool (place4 \<noteq> []))]"
    and "place4 = []"
    using none [of "[]"] by (auto simp: n3 c3)
  then have 4: "understand_query example_env [] =
      [(''place'', JStr []), (''intents'', JArr [JStr ''weather'', JStr ''places'']),
       (''days'', JNum 1), (''is_valid_query'', JBool False)]"
    by simp
  from 1 2 3 4 show ?thesis by simp
qed

text \<open>
  C10. \<^const>\<open>extract_place_name\<close> is a total function to strings (it has no \<open>None\<close> and no
  error result). For a query that no pattern matches and that has no capitalized word
  outside the stop words it returns the query text unchanged; so when the fallback of the
  intent analysis applies to such a query, and the query is not empty and not classified as
  a greeting, the query is valid and its place name is the whole query text.
\<close>

theorem extract_place_name_raw_input:
  assumes "\<forall>p \<in> set patterns. re_search env p user_input = None"
    and "capitalized_words env user_input = []"
  shows "extract_place_name env user_input = user_input \<and>
     (\<forall>e. groq_intent env user_input = Inl e \<and> user_input \<noteq> [] \<and>
          str_strip env (str_lower env user_input) \<notin> set GREETING_WORDS \<longrightarrow>
        understand_query env user_input =
          [(''place'', JStr user_input), (''intents'', JArr [JStr ''weather'', JStr ''places'']),
           (''days'', JNum 1), (''is_valid_query'', JBool True)])"
proof -
  have "match_patterns env patterns user_input = None"
    using assms(1) by (simp add: match_patterns_None)
  then have raw: "extract_place_name env user_input = user_input"
    using assms(2) by (simp add: extract_place_name_def)
  show ?thesis
    using raw by (auto simp: understand_query_fallback fallback_analysis_def Let_def)
qed

theorem extract_place_name_raw_input_witness:
  "capitalized_words example_env ''show me the eiffel tower'' = [] \<and>
   extract_place_name example_env ''show me the eiffel tower'' = ''show me the eiffel tower'' \<and>
   understand_query example_env ''show me the eiffel tower'' =
     [(''place'', JStr ''show me the eiffel tower''),
      (''intents'', JArr [JStr ''weather'', JStr ''places'']),
      (''days'', JNum 1), (''is_valid_query'', JBool True)]"
proof -
  have none: "\<forall>p \<in> set patterns. re_search example_env p ''show me the eiffel tower'' = None"
    by (simp add: example_text)
  have caps: "capitalized_words example_env ''show me the eiffel tower'' = []"
    by (simp add: example_text text_eval)
  have fail: "groq_intent example_env ''show me the eiffel tower'' = Inl JSONDecodeError"
    by (rule example_groq_intent_fails) simp
  have no_greeting: "str_strip example_env (str_lower example_env ''show me the eiffel tower'')
      \<notin> set GREETING_WORDS"
    by (simp add: example_text text_eval)
  show ?thesis
    using extract_place_name_raw_input [OF none caps] caps fail no_greeting by simp
qed

end
